theory Spec2Isabelle
  imports Main "HOL-Library.Option_ord"
begin

section \<open>Python values used by the sequences package\<close>

text \<open>
  The package is Python 2 code: a \<open>str\<close> is a byte string, modelled as \<^typ>\<open>string\<close>;
  integers are unbounded (\<^typ>\<open>int\<close>); an item number that \<open>num\<close> could not read is
  Python's \<open>None\<close>, so item numbers are \<^typ>\<open>int option\<close>.  Exceptions are values of
  \<open>py_error\<close>.  \<open>Unmodelled\<close> is not a Python exception: it marks the templates on which
  \<open>str.format\<close> is not followed to its end (see \<open>format_item\<close>), and \<open>int\<close> of a string
  that is not a string of digits, which the package never computes.
\<close>

datatype py_error =
  TypeError | ValueError | AttributeError | IndexError | KeyError | OSError | Unmodelled

subsection \<open>The range and gap calculator (\<open>AbstractSequence.range\<close>, \<open>missing\<close>)\<close>

text \<open>
  \<open>itertools.groupby\<close> over a list whose keys have been computed: maximal blocks of
  neighbours with equal keys, in order.  A block is never empty, so it is kept as its first
  element and the rest.
\<close>

fun groupby :: "('k \<times> 'a) list \<Rightarrow> ('k \<times> 'a \<times> 'a list) list" where
  "groupby [] = []"
| "groupby ((k, x) # rest) =
     (case groupby rest of
        [] \<Rightarrow> [(k, x, [])]
      | (k', y, ys) # gs \<Rightarrow>
          if k = k' then (k, x, y # ys) # gs else (k, x, []) # (k', y, ys) # gs)"

text \<open>
  The key function of \<open>range\<close> is \<open>lambda x, c=count(): next(c)-x\<close>: the counter is
  incremented once per element, so the key of the element at position \<open>i\<close> is \<open>i - x\<close>.
\<close>

fun count_keys :: "int \<Rightarrow> int list \<Rightarrow> (int \<times> int) list" where
  "count_keys c [] = []"
| "count_keys c (x # xs) = (c - x, x) # count_keys (c + 1) xs"

text \<open>\<open>as_range\<close>: \<open>[l[0]]\<close> if \<open>l[0] == l[-1]\<close>, else \<open>[l[0], l[-1]]\<close>.\<close>

fun as_range :: "int \<times> int list \<Rightarrow> int list" where
  "as_range (x, xs) = (if x = last (x # xs) then [x] else [x, last (x # xs)])"

definition grouped_numbers :: "int list \<Rightarrow> int list list" where
  "grouped_numbers ns = map (\<lambda>(k, g). as_range g) (groupby (count_keys 0 ns))"

text \<open>
  \<open>numbers\<close> may hold \<open>None\<close>; then \<open>next(c) - x\<close> raises \<open>TypeError\<close>.  The list
  comprehension consumes every group, so one \<open>None\<close> anywhere is enough.
\<close>

definition range_of_numbers :: "int option list \<Rightarrow> py_error + int list list" where
  "range_of_numbers ns =
     (if None \<in> set ns then Inl TypeError else Inr (grouped_numbers (map the ns)))"

text \<open>
  \<open>missing\<close>: \<open>imap(sub, numbers[1:], numbers)\<close> pairs each number with its successor; for a
  difference above 1, \<open>numbers[i] + d\<close> for \<open>d\<close> in \<open>xrange(1, diff)\<close>.
\<close>

fun imap_sub :: "int list \<Rightarrow> int list \<Rightarrow> int list" where
  "imap_sub (a # as) (b # bs) = (a - b) # imap_sub as bs"
| "imap_sub _ _ = []"

fun enumerate_from :: "nat \<Rightarrow> 'a list \<Rightarrow> (nat \<times> 'a) list" where
  "enumerate_from i [] = []"
| "enumerate_from i (x # xs) = (i, x) # enumerate_from (Suc i) xs"

definition xrange :: "int \<Rightarrow> int \<Rightarrow> int list" where
  "xrange a b = [a..b - 1]"

definition missing_numbers :: "int list \<Rightarrow> int list" where
  "missing_numbers ns =
     concat (map (\<lambda>(i, diff). map (\<lambda>d. ns ! i + d) (xrange 1 diff))
       (filter (\<lambda>(i, diff). diff > 1) (enumerate_from 0 (imap_sub (tl ns) ns))))"

text \<open>
  \<open>sub\<close> on \<open>None\<close> raises \<open>TypeError\<close>; a pair exists as soon as the list has two
  elements, and every element of such a list is in some pair.
\<close>

definition missing_of_numbers :: "int option list \<Rightarrow> py_error + int list" where
  "missing_of_numbers ns =
     (if 2 \<le> length ns \<and> None \<in> set ns then Inl TypeError
      else Inr (missing_numbers (map the ns)))"

subsection \<open>What the specification says about ranges and gaps\<close>

text \<open>
  The specification's words, as definitions of their own: the maximal runs of consecutive
  integers of a list, the interval that stands for a run, and the integers strictly
  between two neighbours.
\<close>

fun spec_runs :: "int list \<Rightarrow> int list list" where
  "spec_runs [] = []"
| "spec_runs [x] = [[x]]"
| "spec_runs (x # y # zs) =
     (if y = x + 1 then (case spec_runs (y # zs) of r # rs \<Rightarrow> (x # r) # rs | [] \<Rightarrow> [[x]])
      else [x] # spec_runs (y # zs))"

fun consecutive :: "int list \<Rightarrow> bool" where
  "consecutive [] = True"
| "consecutive [x] = True"
| "consecutive (x # y # zs) = (y = x + 1 \<and> consecutive (y # zs))"

fun runs_maximal :: "int list list \<Rightarrow> bool" where
  "runs_maximal [] = True"
| "runs_maximal [r] = True"
| "runs_maximal (r # s # rs) = (last r + 1 \<noteq> hd s \<and> runs_maximal (s # rs))"

definition spec_interval :: "int list \<Rightarrow> int list" where
  "spec_interval r = (if length r = 1 then [hd r] else [hd r, last r])"

fun spec_missing :: "int list \<Rightarrow> int list" where
  "spec_missing [] = []"
| "spec_missing [x] = []"
| "spec_missing (x # y # zs) = (if y - x > 1 then [x + 1..y - 1] else []) @ spec_missing (y # zs)"

subsection \<open>Characters and string operations\<close>

definition newline :: char where
  "newline = CHR 0x0A"

definition backslash :: char where
  "backslash = CHR 0x5C"

text \<open>
  The classes of \<open>re\<close> on a byte string without flags: \<open>\d\<close> is \<open>[0-9]\<close>, \<open>\w\<close> is
  \<open>[a-zA-Z0-9_]\<close>, \<open>\S\<close> is everything but \<open>[ \t\n\r\f\v]\<close>, and \<open>.\<close> is everything but
  the newline.
\<close>

definition is_digit :: "char \<Rightarrow> bool" where
  "is_digit c = (c \<in> set ''0123456789'')"

definition is_word :: "char \<Rightarrow> bool" where
  "is_word c =
     (c \<in> set ''abcdefghijklmnopqrstuvwxyzABCDEFGHIJKLMNOPQRSTUVWXYZ0123456789_'')"

definition is_space :: "char \<Rightarrow> bool" where
  "is_space c = (c \<in> set [CHR '' '', CHR 0x09, CHR 0x0A, CHR 0x0B, CHR 0x0C, CHR 0x0D])"

definition not_space :: "char \<Rightarrow> bool" where
  "not_space c = (\<not> is_space c)"

definition not_newline :: "char \<Rightarrow> bool" where
  "not_newline c = (c \<noteq> newline)"

definition is_pound :: "char \<Rightarrow> bool" where
  "is_pound c = (c = CHR ''#'')"

text \<open>\<open>str.isdigit()\<close>: non-empty and all digits.\<close>

definition isdigit :: "string \<Rightarrow> bool" where
  "isdigit s = (s \<noteq> [] \<and> list_all is_digit s)"

text \<open>The value of a decimal digit and of a string of digits, and the digit of a value.\<close>

definition digit_value :: "char \<Rightarrow> nat" where
  "digit_value c = of_char c - 48"

definition digit_char :: "nat \<Rightarrow> char" where
  "digit_char d = char_of (48 + d)"

definition digits_value :: "string \<Rightarrow> nat" where
  "digits_value s = foldl (\<lambda>a c. 10 * a + digit_value c) 0 s"

text \<open>
  \<open>int(s)\<close> as the code uses it, on a string of digits.  Python's \<open>int\<close> also reads signs
  and surrounding blanks; no string of the package reaches it with either, and such a
  call is left out.
\<close>

definition py_int :: "string \<Rightarrow> py_error + int" where
  "py_int s = (if isdigit s then Inr (int (digits_value s)) else Inl Unmodelled)"

text \<open>\<open>str(n)\<close> for a natural number and for an integer.\<close>

fun str_nat :: "nat \<Rightarrow> string" where
  "str_nat n = (if n < 10 then [digit_char n] else str_nat (n div 10) @ [digit_char (n mod 10)])"

definition str_int :: "int \<Rightarrow> string" where
  "str_int i = (if i < 0 then CHR ''-'' # str_nat (nat (- i)) else str_nat (nat i))"

text \<open>
  The format specification \<open>0Pd\<close> (of \<open>'%0Pd' % n\<close> and of \<open>'{item:0Pd}'.format(item=n)\<close>)
  for a width \<open>P \<ge> 0\<close>: zeros are put between the sign and the digits until the whole
  text is \<open>P\<close> characters wide.
\<close>

definition zero_pad :: "nat \<Rightarrow> int \<Rightarrow> string" where
  "zero_pad P n =
     (if n < 0
      then CHR ''-'' # replicate (P - 1 - length (str_nat (nat (- n)))) CHR ''0'' @ str_nat (nat (- n))
      else replicate (P - length (str_nat (nat n))) CHR ''0'' @ str_nat (nat n))"

text \<open>\<open>s.lstrip(chars)\<close>, \<open>s.rstrip(chars)\<close>, \<open>s.startswith(p)\<close>, \<open>s.endswith(p)\<close>.\<close>

definition lstrip :: "string \<Rightarrow> string \<Rightarrow> string" where
  "lstrip chars s = dropWhile (\<lambda>c. c \<in> set chars) s"

definition rstrip :: "string \<Rightarrow> string \<Rightarrow> string" where
  "rstrip chars s = rev (dropWhile (\<lambda>c. c \<in> set chars) (rev s))"

definition startswith :: "string \<Rightarrow> string \<Rightarrow> bool" where
  "startswith s p = (take (length p) s = p)"

definition endswith :: "string \<Rightarrow> string \<Rightarrow> bool" where
  "endswith s p = (length p \<le> length s \<and> drop (length s - length p) s = p)"

text \<open>The slice \<open>s[a:b]\<close> for indices that are not negative.\<close>

definition slice :: "string \<Rightarrow> nat \<Rightarrow> nat \<Rightarrow> string" where
  "slice s a b = take (b - a) (drop a s)"

text \<open>\<open>s.replace('[', '\\[')\<close>: a backslash before every opening bracket.\<close>

fun escape_brackets :: "string \<Rightarrow> string" where
  "escape_brackets [] = []"
| "escape_brackets (c # cs) =
     (if c = CHR ''['' then backslash # c # escape_brackets cs else c # escape_brackets cs)"

subsection \<open>Regular expressions as backtracking matchers\<close>

text \<open>
  \<open>re\<close> matches by backtracking: an alternation tries its branches from left to right, a
  greedy repetition tries the longest run first, a lazy one the shortest.  A pattern is
  modelled as a matcher in continuation style: it gets what follows it in the pattern
  (a function from the rest of the input to the result) and the input, and a failure of the
  continuation makes it try its next choice.  The text of a group is recovered from the
  lengths of the input before and after it.
\<close>

type_synonym 'r cont = "string \<Rightarrow> 'r option"

definition orelse :: "'r option \<Rightarrow> 'r option \<Rightarrow> 'r option" where
  "orelse a b = (case a of Some r \<Rightarrow> Some r | None \<Rightarrow> b)"

definition lit :: "char \<Rightarrow> 'r cont \<Rightarrow> 'r cont" where
  "lit c k s = (case s of [] \<Rightarrow> None | x # xs \<Rightarrow> if x = c then k xs else None)"

definition one_of :: "(char \<Rightarrow> bool) \<Rightarrow> 'r cont \<Rightarrow> 'r cont" where
  "one_of p k s = (case s of [] \<Rightarrow> None | x # xs \<Rightarrow> if p x then k xs else None)"

fun greedy_star :: "(char \<Rightarrow> bool) \<Rightarrow> 'r cont \<Rightarrow> 'r cont" where
  "greedy_star p k [] = k []"
| "greedy_star p k (x # xs) =
     (if p x then orelse (greedy_star p k xs) (k (x # xs)) else k (x # xs))"

definition greedy_plus :: "(char \<Rightarrow> bool) \<Rightarrow> 'r cont \<Rightarrow> 'r cont" where
  "greedy_plus p k = one_of p (greedy_star p k)"

fun lazy_star :: "(char \<Rightarrow> bool) \<Rightarrow> 'r cont \<Rightarrow> 'r cont" where
  "lazy_star p k [] = k []"
| "lazy_star p k (x # xs) =
     orelse (k (x # xs)) (if p x then lazy_star p k xs else None)"

text \<open>
  \<open>$\<close> without \<open>MULTILINE\<close> matches at the end of the string and just before a newline
  that is the last character.
\<close>

definition end_anchor :: "'r cont \<Rightarrow> 'r cont" where
  "end_anchor k s = (if s = [] \<or> s = [newline] then k s else None)"

datatype format_type = nums | pounds | regex | formatstring | percent

text \<open>
  The group \<open>sequence\<close>, shared by both patterns:
  \<^verbatim>\<open>(?P<nums>(?:\d)+)|(?P<pounds>(?:#)+)|(?P<regex>\\d{\d+})|(?P<formatstring>{\w+:\d+d})|(?P<percent>%\d+d)\<close>.
  The continuation is told which alternative matched.
\<close>

definition sequence_group :: "(format_type \<Rightarrow> 'r cont) \<Rightarrow> 'r cont" where
  "sequence_group k s =
     orelse (greedy_plus is_digit (k nums) s)
    (orelse (greedy_plus is_pound (k pounds) s)
    (orelse (lit backslash (lit CHR ''d'' (lit CHR ''{''
               (greedy_plus is_digit (lit CHR ''}'' (k regex))))) s)
    (orelse (lit CHR ''{'' (greedy_plus is_word (lit CHR '':''
               (greedy_plus is_digit (lit CHR ''d'' (lit CHR ''}'' (k formatstring)))))) s)
            (lit CHR ''%'' (greedy_plus is_digit (lit CHR ''d'' (k percent))) s))))"

text \<open>
  What the code reads from a match object: the groups \<open>prefix\<close>, \<open>sequence\<close>, \<open>suffix\<close> and
  \<open>ext\<close> (the last two exist in the file pattern only; \<open>ext\<close> is \<open>None\<close> when its branch did
  not take part), the alternative of \<open>sequence\<close> that matched (the one group among \<open>nums\<close>,
  \<open>pounds\<close>, \<open>regex\<close>, \<open>formatstring\<close>, \<open>percent\<close> that is not \<open>None\<close>; its text is that of
  \<open>sequence\<close>), and \<open>start('sequence')\<close>, \<open>end('sequence')\<close>.
\<close>

record re_match =
  m_prefix :: string
  m_alternative :: format_type
  m_sequence :: string
  m_start :: nat
  m_end :: nat
  m_suffix :: "string option"
  m_ext :: "string option"

text \<open>
  \<open>DEFAULT_SEQUENCE_PATTERN\<close>: \<^verbatim>\<open>^(?P<prefix>.*?)(?P<sequence>...)$\<close>.  With \<open>^\<close> in front,
  \<open>search\<close> can only match at position 0.
\<close>

definition DEFAULT_SEQUENCE_PATTERN :: "string \<Rightarrow> re_match option" where
  "DEFAULT_SEQUENCE_PATTERN s =
     lazy_star not_newline
       (\<lambda>r1. sequence_group
          (\<lambda>alt. end_anchor
             (\<lambda>r2. Some \<lparr> m_prefix = take (length s - length r1) s,
                          m_alternative = alt,
                          m_sequence = take (length r1 - length r2) r1,
                          m_start = length s - length r1,
                          m_end = length s - length r2,
                          m_suffix = None,
                          m_ext = None \<rparr>)) r1) s"

text \<open>
  The group \<open>suffix\<close> of the file pattern: \<^verbatim>\<open>(?P<suffix>.*(?P<ext>\.\S+$)|$)\<close>.  The
  continuation gets the text of \<open>ext\<close>, if that branch matched.
\<close>

definition suffix_group :: "(string option \<Rightarrow> 'r cont) \<Rightarrow> 'r cont" where
  "suffix_group k s =
     orelse (greedy_star not_newline
               (\<lambda>r3. lit CHR ''.'' (greedy_plus not_space
                  (end_anchor (\<lambda>r4. k (Some (take (length r3 - length r4) r3)) r4))) r3) s)
            (end_anchor (k None) s)"

text \<open>
  \<open>DEFAULT_FILE_SEQUENCE_PATTERN\<close>:
  \<^verbatim>\<open>^(?P<prefix>.*?)(?:\.(?P<sequence>...)(?P<suffix>.*(?P<ext>\.\S+$)|$))\<close>.
\<close>

definition DEFAULT_FILE_SEQUENCE_PATTERN :: "string \<Rightarrow> re_match option" where
  "DEFAULT_FILE_SEQUENCE_PATTERN s =
     lazy_star not_newline
       (\<lambda>r0. lit CHR ''.''
          (\<lambda>r1. sequence_group
             (\<lambda>alt r2. suffix_group
                (\<lambda>ext r3. Some \<lparr> m_prefix = take (length s - length r0) s,
                                 m_alternative = alt,
                                 m_sequence = take (length r1 - length r2) r1,
                                 m_start = length s - length r1,
                                 m_end = length s - length r2,
                                 m_suffix = Some (take (length r2 - length r3) r2),
                                 m_ext = ext \<rparr>) r2) r1) r0) s"

subsection \<open>The file system and the item lister\<close>

text \<open>
  The package reaches the outside through \<open>os.path.exists\<close>, \<open>os.rename\<close> and a directory
  scan.  A file system is a list of paths with what is there, a directory or a file with its
  content; paths are POSIX paths.
\<close>

datatype node = Dir | File string

type_synonym filesystem = "(string \<times> node) list"

definition os_path_exists :: "filesystem \<Rightarrow> string \<Rightarrow> bool" where
  "os_path_exists fs p = (map_of fs p \<noteq> None)"

text \<open>
  \<open>posixpath.dirname\<close>: the text up to the last slash, without its trailing slashes unless
  it holds nothing else.
\<close>

definition os_path_dirname :: "string \<Rightarrow> string" where
  "os_path_dirname p =
     (let head = rev (dropWhile (\<lambda>c. c \<noteq> CHR ''/'') (rev p))
      in if head \<noteq> [] \<and> \<not> list_all (\<lambda>c. c = CHR ''/'') head then rstrip ''/'' head else head)"

text \<open>
  The scan of \<open>_build_sequence_items_from_disk\<close>: \<open>join_paths(folderPath, dirEntry.name)\<close>
  for the entries of the folder that are files.  \<open>scandir\<close> raises \<open>OSError\<close> on a folder that
  does not exist.
\<close>

definition scandir_files :: "filesystem \<Rightarrow> string \<Rightarrow> py_error + string list" where
  "scandir_files fs folder =
     (if map_of fs folder = Some Dir
      then Inr (map fst (filter (\<lambda>(p, n). n \<noteq> Dir \<and> os_path_dirname p = folder) fs))
      else Inl OSError)"

text \<open>
  \<open>os.rename\<close>: \<open>OSError\<close> when the source does not exist; otherwise the node moves and
  replaces what was at the destination.
\<close>

definition os_rename :: "filesystem \<Rightarrow> string \<Rightarrow> string \<Rightarrow> py_error + filesystem" where
  "os_rename fs old new =
     (case map_of fs old of
        None \<Rightarrow> Inl OSError
      | Some n \<Rightarrow> Inr ((new, n) # filter (\<lambda>(p, _). p \<noteq> old \<and> p \<noteq> new) fs))"

text \<open>
  \<open>utils.path_normalize\<close> with its default arguments: backslashes become slashes, then
  every \<open>//\<close> after the first character becomes \<open>/\<close> (\<open>str.replace\<close> goes from left to
  right and does not look again at what it wrote).
\<close>

fun replace_double_slash :: "string \<Rightarrow> string" where
  "replace_double_slash (a # b # cs) =
     (if a = CHR ''/'' \<and> b = CHR ''/'' then CHR ''/'' # replace_double_slash cs
      else a # replace_double_slash (b # cs))"
| "replace_double_slash cs = cs"

definition path_normalize :: "string \<Rightarrow> string" where
  "path_normalize filename =
     (case map (\<lambda>c. if c = backslash then CHR ''/'' else c) filename of
        [] \<Rightarrow> []
      | c # cs \<Rightarrow> c # replace_double_slash cs)"

subsection \<open>The sequence object\<close>

text \<open>
  \<open>AbstractSequence\<close> and \<open>FileSequence\<close> are modelled; \<open>BaseSequence\<close> adds item assignment
  and deletion to \<open>AbstractSequence\<close> and \<open>ImageSequence\<close> a check of the extension to
  \<open>FileSequence\<close>, and neither is part of what follows.  The class decides the pattern and
  which methods exist.
\<close>

datatype seq_class = AbstractSequence | FileSequence

definition formatStringKey :: "seq_class \<Rightarrow> string" where
  "formatStringKey cls = ''item''"

definition class_regex :: "seq_class \<Rightarrow> string \<Rightarrow> re_match option" where
  "class_regex cls =
     (case cls of AbstractSequence \<Rightarrow> DEFAULT_SEQUENCE_PATTERN
                | FileSequence \<Rightarrow> DEFAULT_FILE_SEQUENCE_PATTERN)"

text \<open>
  \<open>validate_path\<close>.  The path is a string here, so the \<open>TypeError\<close> for another type has no
  place.  Exactly one of the five groups is not \<open>None\<close>, so the loop over the groups finds the
  alternative that matched; for \<open>formatstring\<close> the key is \<open>groups[key][1:].split(':')[0]\<close>.
  \<open>FileSequence.validate_path\<close> then looks for the folder when \<open>validateExists\<close> is set.
\<close>

definition validate_path ::
  "seq_class \<Rightarrow> filesystem \<Rightarrow> bool \<Rightarrow> string \<Rightarrow> py_error + re_match \<times> format_type" where
  "validate_path cls fs validateExists path =
     (case class_regex cls path of
        None \<Rightarrow> Inl ValueError
      | Some m \<Rightarrow>
          if m_alternative m = formatstring
             \<and> takeWhile (\<lambda>c. c \<noteq> CHR '':'') (tl (m_sequence m)) \<noteq> formatStringKey cls
          then Inl ValueError
          else if cls = FileSequence \<and> validateExists
                  \<and> \<not> os_path_exists fs (os_path_dirname path)
          then Inl ValueError
          else Inr (m, m_alternative m))"

text \<open>
  \<open>_parse_padding_from_match\<close>: the length of the digits or pounds, or the number left after
  stripping the decoration (\<open>lstrip\<close> and \<open>rstrip\<close> take sets of characters).
\<close>

definition parse_padding_from_match :: "seq_class \<Rightarrow> re_match \<Rightarrow> format_type \<Rightarrow> py_error + int" where
  "parse_padding_from_match cls m formatType =
     (case formatType of
        nums \<Rightarrow> Inr (int (length (m_sequence m)))
      | pounds \<Rightarrow> Inr (int (length (m_sequence m)))
      | regex \<Rightarrow> py_int (rstrip ''}}'' (lstrip (backslash # ''d+{{'') (m_sequence m)))
      | formatstring \<Rightarrow>
          py_int (rstrip ''d}}'' (lstrip (''{'' @ formatStringKey cls @ '':'') (m_sequence m)))
      | percent \<Rightarrow> py_int (rstrip ''d'' (lstrip ''%'' (m_sequence m))))"

text \<open>What \<open>_parse_values\<close> stores.\<close>

record parsed_values =
  pv_primary_match :: re_match
  pv_format_type :: format_type
  pv_current_item :: string
  pv_current_item_number :: "int option"
  pv_padding :: int
  pv_base_sequence_items :: "string \<times> string"

text \<open>
  The attributes of a sequence object.  \<open>parsed_values\<close> is \<open>None\<close> while \<open>_parsed\<close> is
  false.  For a \<open>FileSequence\<close>, \<open>_sourcePath\<close> and \<open>_string\<close> always hold the same text and
  are one field.  The memos \<open>_prefix\<close>, \<open>_suffix\<close> and \<open>_ext\<close> are reset wherever the match
  changes and are left out.
\<close>

record sequence =
  seq_class :: seq_class
  seq_string :: string
  input_items :: "string list option"
  validateExists :: bool
  parsed_values :: "parsed_values option"
  sequence_items :: "(int option \<times> string) list"
  built :: bool
  regex_string :: "string option"
  range_cache :: "int list list option"

text \<open>
  \<open>_parse_values\<close> on the source string, as a function of the object: parsing is memoised
  and gives the same values every time, so a reader of a parsed attribute takes the stored
  values or computes them.
\<close>

definition parse_values :: "filesystem \<Rightarrow> sequence \<Rightarrow> py_error + parsed_values" where
  "parse_values fs sq =
     (case validate_path (seq_class sq) fs (validateExists sq) (seq_string sq) of
        Inl e \<Rightarrow> Inl e
      | Inr (m, formatType) \<Rightarrow>
          (case parse_padding_from_match (seq_class sq) m formatType of
             Inl e \<Rightarrow> Inl e
           | Inr p \<Rightarrow>
               Inr \<lparr> pv_primary_match = m,
                     pv_format_type = formatType,
                     pv_current_item = m_sequence m,
                     pv_current_item_number =
                       (if formatType = nums then Some (int (digits_value (m_sequence m))) else None),
                     pv_padding = p,
                     pv_base_sequence_items =
                       (take (m_start m) (seq_string sq), drop (m_end m) (seq_string sq)) \<rparr>))"

definition get_values :: "filesystem \<Rightarrow> sequence \<Rightarrow> py_error + parsed_values" where
  "get_values fs sq = (case parsed_values sq of Some v \<Rightarrow> Inr v | None \<Rightarrow> parse_values fs sq)"

definition ensure_parsed :: "filesystem \<Rightarrow> sequence \<Rightarrow> py_error + sequence" where
  "ensure_parsed fs sq =
     (case get_values fs sq of Inl e \<Rightarrow> Inl e | Inr v \<Rightarrow> Inr (sq\<lparr>parsed_values := Some v\<rparr>))"

text \<open>\<open>_clearProperties\<close>.\<close>

definition clearProperties :: "sequence \<Rightarrow> sequence" where
  "clearProperties sq =
     sq\<lparr>parsed_values := None, sequence_items := [], built := False,
        regex_string := None, range_cache := None\<rparr>"

text \<open>
  \<open>__init__\<close> of the two classes (\<open>FileSequence\<close> normalises the path first when
  \<open>normalizeInput\<close> is set); unless \<open>skipValidate\<close> is set it parses at once.
\<close>

definition init_sequence ::
  "seq_class \<Rightarrow> filesystem \<Rightarrow> string \<Rightarrow> string list option \<Rightarrow> bool \<Rightarrow> bool \<Rightarrow> bool
     \<Rightarrow> py_error + sequence" where
  "init_sequence cls fs string items skipValidate validateExists' normalizeInput =
     (let sq = clearProperties
                 \<lparr> seq_class = cls,
                   seq_string = (if cls = FileSequence \<and> normalizeInput
                                 then path_normalize string else string),
                   input_items = items,
                   validateExists = validateExists',
                   parsed_values = None, sequence_items = [], built = False,
                   regex_string = None, range_cache = None \<rparr>
      in if skipValidate then Inr sq else ensure_parsed fs sq)"

text \<open>The properties \<open>padding\<close>, \<open>prefix\<close>, \<open>suffix\<close>, \<open>formatType\<close>, \<open>currentItemNumber\<close>.\<close>

definition match_prefix :: "parsed_values \<Rightarrow> string" where
  "match_prefix v = m_prefix (pv_primary_match v)"

definition match_suffix :: "parsed_values \<Rightarrow> string" where
  "match_suffix v = (case m_suffix (pv_primary_match v) of None \<Rightarrow> [] | Some s \<Rightarrow> s)"

definition padding :: "filesystem \<Rightarrow> sequence \<Rightarrow> py_error + int" where
  "padding fs sq = (case get_values fs sq of Inl e \<Rightarrow> Inl e | Inr v \<Rightarrow> Inr (pv_padding v))"

definition prefix :: "filesystem \<Rightarrow> sequence \<Rightarrow> py_error + string" where
  "prefix fs sq = (case get_values fs sq of Inl e \<Rightarrow> Inl e | Inr v \<Rightarrow> Inr (match_prefix v))"

definition suffix :: "filesystem \<Rightarrow> sequence \<Rightarrow> py_error + string" where
  "suffix fs sq = (case get_values fs sq of Inl e \<Rightarrow> Inl e | Inr v \<Rightarrow> Inr (match_suffix v))"

definition formatType :: "filesystem \<Rightarrow> sequence \<Rightarrow> py_error + format_type" where
  "formatType fs sq =
     (case get_values fs sq of Inl e \<Rightarrow> Inl e | Inr v \<Rightarrow> Inr (pv_format_type v))"

definition currentItemNumber :: "filesystem \<Rightarrow> sequence \<Rightarrow> py_error + int option" where
  "currentItemNumber fs sq =
     (case get_values fs sq of Inl e \<Rightarrow> Inl e | Inr v \<Rightarrow> Inr (pv_current_item_number v))"

subsection \<open>Membership and item numbers\<close>

text \<open>
  \<open>is_part_of_sequence\<close>: the lengths are compared before anything is parsed; then the
  candidate must start with the prefix and end with the suffix.
\<close>

definition is_part_of_sequence :: "filesystem \<Rightarrow> sequence \<Rightarrow> string \<Rightarrow> py_error + bool" where
  "is_part_of_sequence fs sq string =
     (if length (seq_string sq) \<noteq> length string then Inr False
      else case get_values fs sq of
             Inl e \<Rightarrow> Inl e
           | Inr v \<Rightarrow>
               if \<not> startswith string (match_prefix v) then Inr False
               else if \<not> endswith string (match_suffix v) then Inr False
               else Inr True)"

text \<open>
  \<open>num\<close>: \<open>ValueError\<close> for a string that is not part of the sequence; otherwise the slice
  \<open>string[start:start + padding]\<close> as a number when it is all digits, and \<open>None\<close> (the
  function ends without a \<open>return\<close>) when it is not.
\<close>

definition num :: "filesystem \<Rightarrow> sequence \<Rightarrow> string \<Rightarrow> py_error + int option" where
  "num fs sq string =
     (case get_values fs sq of
        Inl e \<Rightarrow> Inl e
      | Inr v \<Rightarrow>
          (case is_part_of_sequence fs sq string of
             Inl e \<Rightarrow> Inl e
           | Inr part \<Rightarrow>
               if \<not> part then Inl ValueError
               else let start = m_start (pv_primary_match v);
                        digits = slice string start (nat (int start + pv_padding v))
                    in if isdigit digits then Inr (Some (int (digits_value digits)))
                       else Inr None))"

subsection \<open>Rendering\<close>

text \<open>
  The four template renderers put a text for the slot between the two parts of
  \<open>_base_sequence_items\<close> (\<open>substr.join\<close> of a list of two).  A padding that is not given is
  the padding of the sequence.
\<close>

definition join2 :: "string \<Rightarrow> string \<times> string \<Rightarrow> string" where
  "join2 substr base = fst base @ substr @ snd base"

definition padding_or_default :: "parsed_values \<Rightarrow> int option \<Rightarrow> int" where
  "padding_or_default v p = (case p of None \<Rightarrow> pv_padding v | Some P \<Rightarrow> P)"

definition get_pound_string :: "filesystem \<Rightarrow> sequence \<Rightarrow> int option \<Rightarrow> py_error + string" where
  "get_pound_string fs sq p =
     (case get_values fs sq of
        Inl e \<Rightarrow> Inl e
      | Inr v \<Rightarrow>
          Inr (join2 (replicate (nat (padding_or_default v p)) CHR ''#'')
                 (pv_base_sequence_items v)))"

definition get_format_string ::
  "filesystem \<Rightarrow> sequence \<Rightarrow> int option \<Rightarrow> string option \<Rightarrow> py_error + string" where
  "get_format_string fs sq p formatKey =
     (case get_values fs sq of
        Inl e \<Rightarrow> Inl e
      | Inr v \<Rightarrow>
          let key = (case formatKey of None \<Rightarrow> formatStringKey (seq_class sq) | Some k \<Rightarrow> k)
          in Inr (join2 (''{'' @ key @ '':0'' @ str_int (padding_or_default v p) @ ''d}'')
                    (pv_base_sequence_items v)))"

definition get_percent_string :: "filesystem \<Rightarrow> sequence \<Rightarrow> int option \<Rightarrow> py_error + string" where
  "get_percent_string fs sq p =
     (case get_values fs sq of
        Inl e \<Rightarrow> Inl e
      | Inr v \<Rightarrow>
          Inr (join2 (''%0'' @ str_int (padding_or_default v p) @ ''d'')
                 (pv_base_sequence_items v)))"

text \<open>
  \<open>get_regex_string\<close> keeps its result in \<open>_regex_string\<close> and returns what is kept there,
  whatever the padding asked for, as long as it is a non-empty string.
\<close>

definition get_regex_string ::
  "filesystem \<Rightarrow> sequence \<Rightarrow> int option \<Rightarrow> py_error + string \<times> sequence" where
  "get_regex_string fs sq p =
     (case regex_string sq of
        Some (c # cs) \<Rightarrow> Inr (c # cs, sq)
      | _ \<Rightarrow>
          (case get_values fs sq of
             Inl e \<Rightarrow> Inl e
           | Inr v \<Rightarrow>
               let r = escape_brackets
                         (join2 (backslash # ''d{'' @ str_int (padding_or_default v p) @ ''}'')
                            (pv_base_sequence_items v))
               in Inr (r, sq\<lparr>parsed_values := Some v, regex_string := Some r\<rparr>)))"

text \<open>
  \<open>template.format(**{'item': number})\<close> on the template of \<open>get_format_string\<close>.
  \<open>str.format\<close> reads the template from left to right and takes every brace of the literal
  text for markup.  It raises at the first thing it cannot read or look up, so what happens
  at the first brace of the literal text decides the call:
  \<^item> a lone \<open>}\<close>, a \<open>{\<close> that ends the template, and a \<open>{\<close> that is never closed are a
    \<open>ValueError\<close>;
  \<^item> a field \<open>{name...}\<close> without braces inside looks its name up: the only keyword is
    \<open>item\<close> and there is no positional argument, so another name is a \<open>KeyError\<close> and an
    empty name or a number is an \<open>IndexError\<close>.
  The width \<open>0Pd\<close> of the own field is not a format specification when \<open>P\<close> is negative
  (\<open>ValueError\<close>).  Doubled braces, conversions (\<open>!\<close>), subscripts, nested fields other
  than an unclosed one, numbers of ten digits and more, and foreign fields that name \<open>item\<close>
  are not followed.
\<close>

definition has_brace :: "string \<Rightarrow> bool" where
  "has_brace s = (CHR ''{'' \<in> set s \<or> CHR ''}'' \<in> set s)"

definition is_brace :: "char \<Rightarrow> bool" where
  "is_brace c = (c = CHR ''{'' \<or> c = CHR ''}'')"

definition foreign_field :: "string \<Rightarrow> py_error" where
  "foreign_field f =
     (let name = takeWhile (\<lambda>c. c \<noteq> CHR '':'') f;
          first = takeWhile (\<lambda>c. c \<noteq> CHR ''.'') name
      in if CHR ''['' \<in> set f \<or> CHR ''!'' \<in> set f \<or> first = ''item'' then Unmodelled
         else if first = [] \<or> (list_all is_digit first \<and> length first \<le> 9) then IndexError
         else if list_all is_digit first then Unmodelled
         else KeyError)"

text \<open>What \<open>str.format\<close> raises on a text that starts with the first brace of a template.\<close>

definition brace_event :: "string \<Rightarrow> py_error" where
  "brace_event t =
     (case t of
        [] \<Rightarrow> Unmodelled
      | c # rest \<Rightarrow>
          if c = CHR ''}''
          then (case rest of
                  [] \<Rightarrow> ValueError
                | d # _ \<Rightarrow> if d = CHR ''}'' then Unmodelled else ValueError)
          else (case rest of
                  [] \<Rightarrow> ValueError
                | d # _ \<Rightarrow>
                    if d = CHR ''{'' then Unmodelled
                    else let f = takeWhile (\<lambda>x. \<not> is_brace x) rest
                         in (case dropWhile (\<lambda>x. \<not> is_brace x) rest of
                               [] \<Rightarrow> ValueError
                             | b # later \<Rightarrow>
                                 if b = CHR ''}'' then foreign_field f
                                 else if CHR ''['' \<in> set f \<or> CHR ''!'' \<in> set f then Unmodelled
                                 else if filter is_brace later = ''}'' then ValueError
                                 else Unmodelled)))"

definition format_item :: "string \<times> string \<Rightarrow> int \<Rightarrow> int \<Rightarrow> py_error + string" where
  "format_item base P n =
     (if has_brace (fst base)
      then Inl (brace_event (dropWhile (\<lambda>x. \<not> is_brace x)
                  (join2 (''{item:0'' @ str_int P @ ''d}'') base)))
      else if P < 0 then Inl ValueError
      else if has_brace (snd base)
      then Inl (brace_event (dropWhile (\<lambda>x. \<not> is_brace x) (snd base)))
      else Inr (join2 (zero_pad (nat P) n) base))"

definition get_string :: "filesystem \<Rightarrow> sequence \<Rightarrow> int \<Rightarrow> int option \<Rightarrow> py_error + string" where
  "get_string fs sq itemNumber p =
     (case get_values fs sq of
        Inl e \<Rightarrow> Inl e
      | Inr v \<Rightarrow> format_item (pv_base_sequence_items v) (padding_or_default v p) itemNumber)"

text \<open>\<open>FileSequence.get_path\<close> does the same.\<close>

definition get_path :: "filesystem \<Rightarrow> sequence \<Rightarrow> int \<Rightarrow> int option \<Rightarrow> py_error + string" where
  "get_path fs sq number p = get_string fs sq number p"

subsection \<open>The item index\<close>

text \<open>
  A dictionary under construction is a list of pairs with distinct keys; assigning to a key
  replaces its value or adds the pair.  The index itself is an \<open>OrderedDict\<close> filled from
  the pairs sorted by key; Python 2 orders \<open>None\<close> before every integer, as the order on
  \<^typ>\<open>int option\<close> does.
\<close>

fun dict_set :: "'k \<Rightarrow> 'v \<Rightarrow> ('k \<times> 'v) list \<Rightarrow> ('k \<times> 'v) list" where
  "dict_set k v [] = [(k, v)]"
| "dict_set k v ((k', v') # d) = (if k = k' then (k, v) # d else (k', v') # dict_set k v d)"

definition dict_update :: "('k \<times> 'v) list \<Rightarrow> ('k \<times> 'v) list \<Rightarrow> ('k \<times> 'v) list" where
  "dict_update d pairs = foldl (\<lambda>d (k, v). dict_set k v d) d pairs"

definition sorted_items :: "(int option \<times> string) list \<Rightarrow> (int option \<times> string) list" where
  "sorted_items d = sort_key fst d"

text \<open>\<open>AbstractSequence._build_sequence_items_from_input\<close>.\<close>

fun input_items_loop ::
  "filesystem \<Rightarrow> sequence \<Rightarrow> string list \<Rightarrow> (int option \<times> string) list
     \<Rightarrow> py_error + (int option \<times> string) list" where
  "input_items_loop fs sq [] result = Inr result"
| "input_items_loop fs sq (item # rest) result =
     (case num fs sq item of
        Inl e \<Rightarrow> Inl e
      | Inr n \<Rightarrow> input_items_loop fs sq rest (dict_set n item result))"

definition build_sequence_items_from_input ::
  "filesystem \<Rightarrow> sequence \<Rightarrow> string list \<Rightarrow> py_error + (int option \<times> string) list" where
  "build_sequence_items_from_input fs sq items =
     (case input_items_loop fs sq items [] of
        Inl e \<Rightarrow> Inl e
      | Inr result \<Rightarrow>
          (case currentItemNumber fs sq of
             Inl e \<Rightarrow> Inl e
           | Inr c \<Rightarrow>
               (case c of
                  None \<Rightarrow> Inr result
                | Some n \<Rightarrow> if n \<noteq> 0 then Inr (dict_set (Some n) (seq_string sq) result)
                            else Inr result)))"

text \<open>
  \<open>FileSequence._build_sequence_items_from_input\<close>: paths that are not part of the sequence
  are skipped, and the source path is added under \<open>sourceNumber\<close> (\<open>num\<close> of the source
  path) when it is part of the sequence.
\<close>

fun file_input_items_loop ::
  "filesystem \<Rightarrow> sequence \<Rightarrow> string list \<Rightarrow> (int option \<times> string) list
     \<Rightarrow> py_error + (int option \<times> string) list" where
  "file_input_items_loop fs sq [] result = Inr result"
| "file_input_items_loop fs sq (path # rest) result =
     (case is_part_of_sequence fs sq path of
        Inl e \<Rightarrow> Inl e
      | Inr part \<Rightarrow>
          if part
          then (case num fs sq path of
                  Inl e \<Rightarrow> Inl e
                | Inr n \<Rightarrow> file_input_items_loop fs sq rest (dict_set n path result))
          else file_input_items_loop fs sq rest result)"

definition sourceNumber :: "filesystem \<Rightarrow> sequence \<Rightarrow> py_error + int option" where
  "sourceNumber fs sq =
     (if seq_class sq = FileSequence then num fs sq (seq_string sq) else Inl AttributeError)"

definition file_build_sequence_items_from_input ::
  "filesystem \<Rightarrow> sequence \<Rightarrow> string list \<Rightarrow> py_error + (int option \<times> string) list" where
  "file_build_sequence_items_from_input fs sq paths =
     (case file_input_items_loop fs sq paths [] of
        Inl e \<Rightarrow> Inl e
      | Inr result \<Rightarrow>
          (case is_part_of_sequence fs sq (seq_string sq) of
             Inl e \<Rightarrow> Inl e
           | Inr part \<Rightarrow>
               if part
               then (case sourceNumber fs sq of
                       Inl e \<Rightarrow> Inl e
                     | Inr n \<Rightarrow> Inr (dict_set n (seq_string sq) result))
               else Inr result))"

text \<open>
  \<open>FileSequence._build_sequence_items_from_disk\<close> over the scan of the folder: an entry
  counts when it is part of the sequence, has digits in the slot and no further digit right
  after it; its number is then rendered again with \<open>get_path\<close>.
\<close>

fun disk_items_loop ::
  "filesystem \<Rightarrow> sequence \<Rightarrow> nat \<Rightarrow> nat \<Rightarrow> string list \<Rightarrow> (int option \<times> string) list
     \<Rightarrow> py_error + (int option \<times> string) list" where
  "disk_items_loop fs sq start end' [] result = Inr result"
| "disk_items_loop fs sq start end' (dirEntryPath # rest) result =
     (case is_part_of_sequence fs sq dirEntryPath of
        Inl e \<Rightarrow> Inl e
      | Inr part \<Rightarrow>
          if \<not> part then disk_items_loop fs sq start end' rest result
          else if end' > length dirEntryPath then disk_items_loop fs sq start end' rest result
          else if \<not> isdigit (slice dirEntryPath start end')
               then disk_items_loop fs sq start end' rest result
          else if isdigit (slice dirEntryPath start (end' + 1))
               then disk_items_loop fs sq start end' rest result
          else let n = int (digits_value (slice dirEntryPath start end'))
               in (case get_path fs sq n None of
                     Inl e \<Rightarrow> Inl e
                   | Inr path \<Rightarrow>
                       disk_items_loop fs sq start end' rest (dict_set (Some n) path result)))"

definition build_sequence_items_from_disk ::
  "filesystem \<Rightarrow> sequence \<Rightarrow> py_error + (int option \<times> string) list" where
  "build_sequence_items_from_disk fs sq =
     (case get_values fs sq of
        Inl e \<Rightarrow> Inl e
      | Inr v \<Rightarrow>
          (case scandir_files fs (os_path_dirname (seq_string sq)) of
             Inl e \<Rightarrow> Inl e
           | Inr entries \<Rightarrow>
               let start = m_start (pv_primary_match v)
               in disk_items_loop fs sq start (nat (int start + pv_padding v)) entries []))"

text \<open>
  \<open>_loadSequenceItems\<close> of the two classes.  An \<open>AbstractSequence\<close> without explicit items
  stays unbuilt and empty.  \<open>FileSequence\<close> asks \<open>isInPerforce(self.sourcePath)\<close>, which is
  false for a string, so without explicit items it scans the folder.
\<close>

definition loadSequenceItems :: "filesystem \<Rightarrow> sequence \<Rightarrow> py_error + sequence" where
  "loadSequenceItems fs sq0 =
     (case ensure_parsed fs sq0 of
        Inl e \<Rightarrow> Inl e
      | Inr sq \<Rightarrow>
          if built sq then Inr sq
          else (case seq_class sq of
                  AbstractSequence \<Rightarrow>
                    (case input_items sq of
                       None \<Rightarrow> Inr sq
                     | Some items \<Rightarrow>
                         (case build_sequence_items_from_input fs sq items of
                            Inl e \<Rightarrow> Inl e
                          | Inr d \<Rightarrow>
                              Inr (sq\<lparr>sequence_items :=
                                         dict_update (sequence_items sq) (sorted_items d),
                                       built := True\<rparr>)))
                | FileSequence \<Rightarrow>
                    (case (case input_items sq of
                             Some paths \<Rightarrow> file_build_sequence_items_from_input fs sq paths
                           | None \<Rightarrow> build_sequence_items_from_disk fs sq) of
                       Inl e \<Rightarrow> Inl e
                     | Inr d \<Rightarrow>
                         Inr (sq\<lparr>sequence_items :=
                                    dict_update (sequence_items sq) (sorted_items d),
                                  built := True\<rparr>))))"

text \<open>
  The properties \<open>items\<close> and \<open>numbers\<close>; both build the index when it is not built, and
  return the object with what was memoised.  \<open>numbers\<close> is \<open>num\<close> of every value.
\<close>

definition items ::
  "filesystem \<Rightarrow> sequence \<Rightarrow> py_error + (int option \<times> string) list \<times> sequence" where
  "items fs sq =
     (if built sq then Inr (sequence_items sq, sq)
      else case loadSequenceItems fs sq of
             Inl e \<Rightarrow> Inl e
           | Inr sq' \<Rightarrow> Inr (sequence_items sq', sq'))"

fun collect :: "('e + 'a) list \<Rightarrow> 'e + 'a list" where
  "collect [] = Inr []"
| "collect (x # xs) =
     (case x of
        Inl e \<Rightarrow> Inl e
      | Inr a \<Rightarrow> (case collect xs of Inl e \<Rightarrow> Inl e | Inr as \<Rightarrow> Inr (a # as)))"

definition numbers :: "filesystem \<Rightarrow> sequence \<Rightarrow> py_error + int option list \<times> sequence" where
  "numbers fs sq =
     (case items fs sq of
        Inl e \<Rightarrow> Inl e
      | Inr (its, sq') \<Rightarrow>
          (case collect (map (\<lambda>s. num fs sq' (snd s)) its) of
             Inl e \<Rightarrow> Inl e
           | Inr ns \<Rightarrow> Inr (ns, sq')))"

text \<open>The properties \<open>range\<close> (memoised in \<open>_range\<close>) and \<open>missing\<close>.\<close>

definition seq_range :: "filesystem \<Rightarrow> sequence \<Rightarrow> py_error + int list list \<times> sequence" where
  "seq_range fs sq =
     (case range_cache sq of
        Some r \<Rightarrow> Inr (r, sq)
      | None \<Rightarrow>
          (case numbers fs sq of
             Inl e \<Rightarrow> Inl e
           | Inr (ns, sq') \<Rightarrow>
               (case range_of_numbers ns of
                  Inl e \<Rightarrow> Inl e
                | Inr r \<Rightarrow> Inr (r, sq'\<lparr>range_cache := Some r\<rparr>))))"

definition missing :: "filesystem \<Rightarrow> sequence \<Rightarrow> py_error + int list \<times> sequence" where
  "missing fs sq =
     (case numbers fs sq of
        Inl e \<Rightarrow> Inl e
      | Inr (ns, sq') \<Rightarrow>
          (case missing_of_numbers ns of Inl e \<Rightarrow> Inl e | Inr ms \<Rightarrow> Inr (ms, sq')))"

subsection \<open>Neighbours of an item\<close>

fun index_of :: "'a \<Rightarrow> 'a list \<Rightarrow> nat" where
  "index_of x [] = 0"
| "index_of x (y # ys) = (if x = y then 0 else Suc (index_of x ys))"

text \<open>
  \<open>get_next_item\<close> and \<open>get_previous_item\<close>: \<open>ValueError\<close> without a number to start from
  and for a number that \<open>numbers\<close> does not hold; \<open>None\<close> at the last (first) position;
  otherwise the string of the key at that position plus (minus) one.
\<close>

definition get_next_item :: "filesystem \<Rightarrow> sequence \<Rightarrow> int option \<Rightarrow> py_error + string option" where
  "get_next_item fs sq itemNumber =
     (case get_values fs sq of
        Inl e \<Rightarrow> Inl e
      | Inr v \<Rightarrow>
          (case (case itemNumber of None \<Rightarrow> pv_current_item_number v | Some i \<Rightarrow> Some i) of
             None \<Rightarrow> Inl ValueError
           | Some n \<Rightarrow>
               (case numbers fs sq of
                  Inl e \<Rightarrow> Inl e
                | Inr (ns, sq') \<Rightarrow>
                    if Some n \<notin> set ns then Inl ValueError
                    else let itemIndex = index_of (Some n) ns
                         in if itemIndex = length ns - 1 then Inr None
                            else (case fst (sequence_items sq' ! itemIndex) of
                                    None \<Rightarrow> Inl TypeError
                                  | Some k \<Rightarrow>
                                      (case get_string fs sq' (k + 1) None of
                                         Inl e \<Rightarrow> Inl e
                                       | Inr s \<Rightarrow> Inr (Some s))))))"

definition get_previous_item ::
  "filesystem \<Rightarrow> sequence \<Rightarrow> int option \<Rightarrow> py_error + string option" where
  "get_previous_item fs sq itemNumber =
     (case get_values fs sq of
        Inl e \<Rightarrow> Inl e
      | Inr v \<Rightarrow>
          (case (case itemNumber of None \<Rightarrow> pv_current_item_number v | Some i \<Rightarrow> Some i) of
             None \<Rightarrow> Inl ValueError
           | Some n \<Rightarrow>
               (case numbers fs sq of
                  Inl e \<Rightarrow> Inl e
                | Inr (ns, sq') \<Rightarrow>
                    if Some n \<notin> set ns then Inl ValueError
                    else let itemIndex = index_of (Some n) ns
                         in if itemIndex = 0 then Inr None
                            else (case fst (sequence_items sq' ! itemIndex) of
                                    None \<Rightarrow> Inl TypeError
                                  | Some k \<Rightarrow>
                                      (case get_string fs sq' (k - 1) None of
                                         Inl e \<Rightarrow> Inl e
                                       | Inr s \<Rightarrow> Inr (Some s))))))"

subsection \<open>Renaming a sequence\<close>

text \<open>
  \<open>firstPath\<close> and \<open>firstNumber\<close> are properties of \<open>FileSequence\<close> only; on an
  \<open>AbstractSequence\<close> the attribute does not exist.
\<close>

definition firstPath :: "filesystem \<Rightarrow> sequence \<Rightarrow> py_error + string" where
  "firstPath fs sq =
     (if seq_class sq \<noteq> FileSequence then Inl AttributeError
      else case items fs sq of
             Inl e \<Rightarrow> Inl e
           | Inr (its, sq') \<Rightarrow>
               (case its of [] \<Rightarrow> Inr (seq_string sq') | it # _ \<Rightarrow> Inr (snd it)))"

definition firstNumber :: "filesystem \<Rightarrow> sequence \<Rightarrow> py_error + int option" where
  "firstNumber fs sq =
     (case firstPath fs sq of Inl e \<Rightarrow> Inl e | Inr p \<Rightarrow> num fs sq p)"

text \<open>\<open>int(x)\<close> of an argument that is an integer or \<open>None\<close>, \<open>and\<close>, and \<open>==\<close> of two such calls.\<close>

definition int_arg :: "int option \<Rightarrow> py_error + int" where
  "int_arg x = (case x of None \<Rightarrow> Inl TypeError | Some i \<Rightarrow> Inr i)"

definition py_and :: "py_error + bool \<Rightarrow> py_error + bool \<Rightarrow> py_error + bool" where
  "py_and a b = (case a of Inl e \<Rightarrow> Inl e | Inr x \<Rightarrow> if x then b else Inr False)"

definition int_eq :: "py_error + int \<Rightarrow> py_error + int \<Rightarrow> py_error + bool" where
  "int_eq a b =
     (case a of
        Inl e \<Rightarrow> Inl e
      | Inr x \<Rightarrow> (case b of Inl e \<Rightarrow> Inl e | Inr y \<Rightarrow> Inr (x = y)))"

definition first_number_int :: "filesystem \<Rightarrow> sequence \<Rightarrow> py_error + int" where
  "first_number_int fs sq =
     (case firstNumber fs sq of Inl e \<Rightarrow> Inl e | Inr n \<Rightarrow> int_arg n)"

text \<open>
  The chain of tests at the head of \<open>rename\<close>: it returns at once, raises, or goes on.
  The first two tests are \<^verbatim>\<open>padding is None and startFrame is None\<close> and
  \<^verbatim>\<open>not self.items or not self.numbers\<close>; the three last ones, \<open>no_change_tests\<close>, are
  \<^verbatim>\<open>startFrame is None and int(padding) == int(self.padding)\<close>,
  \<^verbatim>\<open>padding is None and int(startFrame) == int(self.firstNumber)\<close> and
  \<^verbatim>\<open>int(padding) == int(self.padding) and int(startFrame) == int(self.firstNumber)\<close>.
\<close>

datatype checked = Return | Proceed | Raise py_error

definition no_change_tests ::
  "filesystem \<Rightarrow> sequence \<Rightarrow> int option \<Rightarrow> int option \<Rightarrow> checked" where
  "no_change_tests fs sq p startFrame =
     (case py_and (Inr (startFrame = None)) (int_eq (int_arg p) (padding fs sq)) of
        Inl e \<Rightarrow> Raise e
      | Inr c3 \<Rightarrow>
          if c3 then Return
          else case py_and (Inr (p = None))
                      (int_eq (int_arg startFrame) (first_number_int fs sq)) of
            Inl e \<Rightarrow> Raise e
          | Inr c4 \<Rightarrow>
              if c4 then Return
              else case py_and (int_eq (int_arg p) (padding fs sq))
                          (int_eq (int_arg startFrame) (first_number_int fs sq)) of
                Inl e \<Rightarrow> Raise e
              | Inr c5 \<Rightarrow> if c5 then Return else Proceed)"

definition rename_checks ::
  "filesystem \<Rightarrow> sequence \<Rightarrow> int option \<Rightarrow> int option \<Rightarrow> checked \<times> sequence" where
  "rename_checks fs sq p startFrame =
     (if p = None \<and> startFrame = None then (Return, sq)
      else case items fs sq of
        Inl e \<Rightarrow> (Raise e, sq)
      | Inr (its, sq1) \<Rightarrow>
          if its = [] then (Return, sq1)
          else case numbers fs sq1 of
            Inl e \<Rightarrow> (Raise e, sq1)
          | Inr (ns, sq2) \<Rightarrow>
              if ns = [] then (Return, sq2)
              else (no_change_tests fs sq2 p startFrame, sq2))"

text \<open>
  \<open>'.%0{0}d'.format(padding) % newNum\<close>, without the dot.  For a width that is not
  negative the number is padded with zeros to the width.  A negative width \<open>-w\<close> gives the
  directive \<open>%0-wd\<close>, whose flag \<open>-\<close> overrides the flag \<open>0\<close>: the number is left justified
  and padded with blanks to \<open>w\<close>.
\<close>

definition percent_format :: "int \<Rightarrow> int \<Rightarrow> string" where
  "percent_format P n =
     (if P < 0
      then str_int n @ replicate (nat (- P) - length (str_int n)) CHR '' ''
      else zero_pad (nat P) n)"

text \<open>
  In the loop that builds the plan, \<open>item\<close> runs over \<open>self.items\<close>, that is over the keys of
  the index.  A key is an integer or \<open>None\<close>, and neither has an attribute \<open>path\<close>.
\<close>

definition item_path :: "int option \<Rightarrow> py_error + string" where
  "item_path item = Inl AttributeError"

fun build_rename_paths ::
  "string \<Rightarrow> string \<Rightarrow> int \<Rightarrow> int \<Rightarrow> (int option \<times> int option) list
     \<Rightarrow> py_error + (string \<times> string) list" where
  "build_rename_paths pre suf P frameOffset [] = Inr []"
| "build_rename_paths pre suf P frameOffset ((item, n) # rest) =
     (case n of
        None \<Rightarrow> Inl TypeError
      | Some k \<Rightarrow>
          (let newPath = pre @ ''.'' @ percent_format P (k + frameOffset) @ suf
           in case item_path item of
                Inl e \<Rightarrow> Inl e
              | Inr oldPath \<Rightarrow>
                  (case build_rename_paths pre suf P frameOffset rest of
                     Inl e \<Rightarrow> Inl e
                   | Inr paths \<Rightarrow> Inr ((oldPath, newPath) # paths))))"

text \<open>
  The loop that renames.  \<open>completedOps\<close> is a dictionary from the old path to the pair of
  paths.  A destination that exists stops the loop (\<open>errored\<close>) unless \<open>replace\<close> is set or,
  in a dry run, the destination is a key of \<open>completedOps\<close>.  A failing \<open>os.rename\<close> is
  caught and stops the loop; what \<open>progressCB\<close> raises is not caught, and the default
  \<open>progressCB\<close> is \<open>None\<close>, whose call is a \<open>TypeError\<close>.
\<close>

datatype exec_status = Finished | Errored | Uncaught py_error

type_synonym completed_ops = "(string \<times> string \<times> string) list"

type_synonym progress_cb = "(nat \<Rightarrow> nat \<Rightarrow> py_error option) option"

fun execute_renames ::
  "bool \<Rightarrow> bool \<Rightarrow> progress_cb \<Rightarrow> nat \<Rightarrow> (nat \<times> string \<times> string) list
     \<Rightarrow> completed_ops \<Rightarrow> filesystem \<Rightarrow> exec_status \<times> completed_ops \<times> filesystem" where
  "execute_renames dryrun replace progressCB n_paths [] completedOps fs =
     (Finished, completedOps, fs)"
| "execute_renames dryrun replace progressCB n_paths ((index, oldPath, newPath) # rest)
       completedOps fs =
     (if \<not> (dryrun \<and> newPath \<in> set (map fst completedOps))
         \<and> os_path_exists fs newPath \<and> \<not> replace
      then (Errored, completedOps, fs)
      else if dryrun
      then execute_renames dryrun replace progressCB n_paths rest
             (dict_set oldPath (oldPath, newPath) completedOps) fs
      else case os_rename fs oldPath newPath of
             Inl e \<Rightarrow> (Errored, completedOps, fs)
           | Inr fs' \<Rightarrow>
               (case progressCB of
                  None \<Rightarrow> (Uncaught TypeError, dict_set oldPath (oldPath, newPath) completedOps, fs')
                | Some cb \<Rightarrow>
                    (case cb index n_paths of
                       Some e \<Rightarrow>
                         (Uncaught e, dict_set oldPath (oldPath, newPath) completedOps, fs')
                     | None \<Rightarrow>
                         execute_renames dryrun replace progressCB n_paths rest
                           (dict_set oldPath (oldPath, newPath) completedOps) fs')))"

text \<open>
  The undo loop runs over \<open>completedOps.values()\<close>: \<open>os.rename(newPath, oldPath)\<close> unless
  it is a dry run.  An \<open>os.rename\<close> that fails here is not caught.
\<close>

fun undo_renames ::
  "bool \<Rightarrow> (string \<times> string) list \<Rightarrow> filesystem \<Rightarrow> py_error option \<times> filesystem" where
  "undo_renames dryrun [] fs = (None, fs)"
| "undo_renames dryrun ((oldPath, newPath) # rest) fs =
     (if dryrun then undo_renames dryrun rest fs
      else case os_rename fs newPath oldPath of
             Inl e \<Rightarrow> (Some e, fs)
           | Inr fs' \<Rightarrow> undo_renames dryrun rest fs')"

text \<open>
  \<open>setSource\<close>: \<open>AbstractSequence\<close> stores the string and reloads, which clears, parses and
  builds; \<open>FileSequence\<close> stores the normalised path and its \<open>reload\<close> only clears.
\<close>

definition setSource :: "filesystem \<Rightarrow> sequence \<Rightarrow> string \<Rightarrow> py_error option \<times> sequence" where
  "setSource fs sq string =
     (case seq_class sq of
        AbstractSequence \<Rightarrow>
          (let sq' = clearProperties (sq\<lparr>seq_string := string\<rparr>)
           in case loadSequenceItems fs sq' of
                Inl e \<Rightarrow> (Some e, sq')
              | Inr sq'' \<Rightarrow> (None, sq''))
      | FileSequence \<Rightarrow>
          (None, clearProperties (sq\<lparr>seq_string := path_normalize string\<rparr>)))"

text \<open>The new source string, in the format of the old one.\<close>

definition new_source_path ::
  "filesystem \<Rightarrow> sequence \<Rightarrow> parsed_values \<Rightarrow> int \<Rightarrow> int \<Rightarrow> py_error + string \<times> sequence" where
  "new_source_path fs sq v P frameOffset =
     (case pv_format_type v of
        nums \<Rightarrow>
          (case sourceNumber fs sq of
             Inl e \<Rightarrow> Inl e
           | Inr None \<Rightarrow> Inl TypeError
           | Inr (Some n) \<Rightarrow>
               (case get_string fs sq (n + frameOffset) (Some P) of
                  Inl e \<Rightarrow> Inl e
                | Inr s \<Rightarrow> Inr (s, sq)))
      | pounds \<Rightarrow>
          (case get_pound_string fs sq (Some P) of Inl e \<Rightarrow> Inl e | Inr s \<Rightarrow> Inr (s, sq))
      | regex \<Rightarrow> get_regex_string fs sq (Some P)
      | formatstring \<Rightarrow>
          (case get_format_string fs sq (Some P) None of Inl e \<Rightarrow> Inl e | Inr s \<Rightarrow> Inr (s, sq))
      | percent \<Rightarrow>
          (case get_percent_string fs sq (Some P) of Inl e \<Rightarrow> Inl e | Inr s \<Rightarrow> Inr (s, sq)))"

text \<open>
  What follows the plan: the order of the moves, the moves, and then either the undo loop
  or the new source string.  \<open>values_order\<close> is the order in which the dictionary
  \<open>completedOps\<close> hands out its values, which is that of the hashes of its keys and is not
  fixed here.
\<close>

definition run_plan ::
  "(completed_ops \<Rightarrow> (string \<times> string) list) \<Rightarrow> filesystem \<Rightarrow> sequence \<Rightarrow> parsed_values
     \<Rightarrow> int \<Rightarrow> int \<Rightarrow> bool \<Rightarrow> bool \<Rightarrow> bool \<Rightarrow> progress_cb \<Rightarrow> (string \<times> string) list
     \<Rightarrow> py_error option \<times> sequence \<times> filesystem" where
  "run_plan values_order fs sq v P frameOffset reverse replace dryrun progressCB renamePaths =
     (let ordered = (if reverse then rev renamePaths else renamePaths)
      in case execute_renames dryrun replace progressCB (length ordered)
                (map (\<lambda>(i, old, new). (i, old, new)) (enumerate_from 0 ordered)) [] fs of
           (Uncaught e, completedOps, fs') \<Rightarrow> (Some e, sq, fs')
         | (Errored, completedOps, fs') \<Rightarrow>
             (case undo_renames dryrun (values_order completedOps) fs' of
                (r, fs'') \<Rightarrow> (r, sq, fs''))
         | (Finished, completedOps, fs') \<Rightarrow>
             (case new_source_path fs' sq v P frameOffset of
                Inl e \<Rightarrow> (Some e, sq, fs')
              | Inr (newPath, sq') \<Rightarrow>
                  (case setSource fs' sq' newPath of (r, sq'') \<Rightarrow> (r, sq'', fs'))))"

text \<open>
  The second half of \<open>rename\<close>: the defaults, the offset (\<open>if startFrame:\<close> is false for 0
  and for \<open>None\<close>), the plan, and \<open>run_plan\<close>.  The result is what was raised (\<open>None\<close> for
  a normal return), the object and the file system as they are then.
\<close>

definition plan_and_run ::
  "(completed_ops \<Rightarrow> (string \<times> string) list) \<Rightarrow> filesystem \<Rightarrow> sequence
     \<Rightarrow> int option \<Rightarrow> int option \<Rightarrow> bool \<Rightarrow> bool \<Rightarrow> progress_cb
     \<Rightarrow> py_error option \<times> sequence \<times> filesystem" where
  "plan_and_run values_order fs sq p startFrame replace dryrun progressCB =
     (case get_values fs sq of
        Inl e \<Rightarrow> (Some e, sq, fs)
      | Inr v \<Rightarrow>
          (case numbers fs sq of
             Inl e \<Rightarrow> (Some e, sq, fs)
           | Inr (ns, sq') \<Rightarrow>
               (case ns of
                  [] \<Rightarrow> (Some IndexError, sq', fs)
                | first # _ \<Rightarrow>
                    (let P = (case p of None \<Rightarrow> pv_padding v | Some P' \<Rightarrow> P');
                         startFrame' = (case startFrame of None \<Rightarrow> first | Some s \<Rightarrow> Some s)
                     in case (case startFrame' of
                                None \<Rightarrow> Inr 0
                              | Some s \<Rightarrow>
                                  if s = 0 then Inr 0
                                  else (case first of
                                          None \<Rightarrow> Inl TypeError
                                        | Some f \<Rightarrow> Inr (s - f))) of
                          Inl e \<Rightarrow> (Some e, sq', fs)
                        | Inr frameOffset \<Rightarrow>
                            (case build_rename_paths (match_prefix v) (match_suffix v) P
                                    frameOffset (zip (map fst (sequence_items sq')) ns) of
                               Inl e \<Rightarrow> (Some e, sq', fs)
                             | Inr renamePaths \<Rightarrow>
                                 run_plan values_order fs sq' v P frameOffset
                                   (\<not> (startFrame' = None \<or> startFrame' = Some 0
                                        \<or> startFrame' < first))
                                   replace dryrun progressCB renamePaths)))))"

text \<open>
  \<open>rename\<close>: the tests, then \<^verbatim>\<open>if not ignoreMissing and len(self.range) > 1\<close>, which
  raises \<open>ValueError\<close>, then the rest.
\<close>

definition rename ::
  "(completed_ops \<Rightarrow> (string \<times> string) list) \<Rightarrow> filesystem \<Rightarrow> sequence
     \<Rightarrow> int option \<Rightarrow> int option \<Rightarrow> bool \<Rightarrow> bool \<Rightarrow> bool \<Rightarrow> progress_cb
     \<Rightarrow> py_error option \<times> sequence \<times> filesystem" where
  "rename values_order fs sq p startFrame ignoreMissing replace dryrun progressCB =
     (case rename_checks fs sq p startFrame of
        (Return, sq1) \<Rightarrow> (None, sq1, fs)
      | (Raise e, sq1) \<Rightarrow> (Some e, sq1, fs)
      | (Proceed, sq1) \<Rightarrow>
          (case (if ignoreMissing then Inr (False, sq1)
                 else case seq_range fs sq1 of
                        Inl e \<Rightarrow> Inl e
                      | Inr (r, sq2) \<Rightarrow> Inr (length r > 1, sq2)) of
             Inl e \<Rightarrow> (Some e, sq1, fs)
           | Inr (gaps, sq2) \<Rightarrow>
               if gaps then (Some ValueError, sq2, fs)
               else plan_and_run values_order fs sq2 p startFrame replace dryrun progressCB))"


subsection \<open>Assigning the current number and assigning an item\<close>

text \<open>
  The setter of \<open>currentItemNumber\<close> stores the number and then reads \<open>self.padding\<close> to
  render \<open>_current_item\<close>.  On an object that is not parsed yet, reading the padding
  parses, and parsing a string with digits in the slot stores the number of the string
  again.  The source string is not touched.
\<close>

definition set_currentItemNumber ::
  "filesystem \<Rightarrow> sequence \<Rightarrow> int \<Rightarrow> py_error option \<times> sequence" where
  "set_currentItemNumber fs sq number =
     (case parsed_values sq of
        Some v \<Rightarrow>
          (None, sq\<lparr>parsed_values :=
                       Some (v\<lparr>pv_current_item_number := Some number,
                               pv_current_item := percent_format (pv_padding v) number\<rparr>)\<rparr>)
      | None \<Rightarrow>
          (case parse_values fs sq of
             Inl e \<Rightarrow> (Some e, sq)
           | Inr v \<Rightarrow>
               let k = (case pv_current_item_number v of None \<Rightarrow> number | Some k' \<Rightarrow> k')
               in (None, sq\<lparr>parsed_values :=
                              Some (v\<lparr>pv_current_item_number := Some k,
                                      pv_current_item := percent_format (pv_padding v) k\<rparr>)\<rparr>)))"

text \<open>
  \<open>BaseSequence.__setitem__\<close>.  \<open>BaseSequence\<close> overrides nothing of \<open>AbstractSequence\<close>,
  so its objects are the objects of class \<open>AbstractSequence\<close> here; a \<open>FileSequence\<close> has no
  item assignment (\<open>TypeError\<close>).  The item must be part of the sequence and have the
  index as its number; it replaces the item of that key or is added, and the index is
  sorted again.  \<open>_range\<close> is left as it is.
\<close>

definition setitem ::
  "filesystem \<Rightarrow> sequence \<Rightarrow> int option \<Rightarrow> string \<Rightarrow> py_error option \<times> sequence" where
  "setitem fs sq index item =
     (if seq_class sq = FileSequence then (Some TypeError, sq)
      else case is_part_of_sequence fs sq item of
        Inl e \<Rightarrow> (Some e, sq)
      | Inr part \<Rightarrow>
          if \<not> part then (Some ValueError, sq)
          else case num fs sq item of
            Inl e \<Rightarrow> (Some e, sq)
          | Inr n \<Rightarrow>
              if n \<noteq> index then (Some ValueError, sq)
              else case items fs sq of
                Inl e \<Rightarrow> (Some e, sq)
              | Inr (its, sq1) \<Rightarrow>
                  (None, sq1\<lparr>sequence_items := sorted_items (dict_set index item its)\<rparr>))"

subsection \<open>Classifying a rendered string\<close>

text \<open>
  To classify a string is to make a sequence of it and to read its \<open>formatType\<close> and its
  \<open>padding\<close>: \<open>AbstractSequence(string)\<close> without items.
\<close>

definition classify :: "string \<Rightarrow> py_error + format_type \<times> int" where
  "classify string =
     (case init_sequence AbstractSequence [] string None False False False of
        Inl e \<Rightarrow> Inl e
      | Inr sq \<Rightarrow>
          (case formatType [] sq of
             Inl e \<Rightarrow> Inl e
           | Inr f \<Rightarrow> (case padding [] sq of Inl e \<Rightarrow> Inl e | Inr p \<Rightarrow> Inr (f, p))))"
subsection \<open>Two folders used as examples\<close>

text \<open>A folder whose frames 1, 2 and 4 exist, and a folder whose frames 1 and 2 exist.\<close>

definition folder_with_gap :: filesystem where
  "folder_with_gap =
     [(''/d'', Dir), (''/d/a.0001.png'', File ''one''), (''/d/a.0002.png'', File ''two''),
      (''/d/a.0004.png'', File ''four'')]"

definition folder_contiguous :: filesystem where
  "folder_contiguous =
     [(''/d'', Dir), (''/d/b.0001.png'', File ''one''), (''/d/b.0002.png'', File ''two'')]"

text \<open>The values of a dictionary in the order in which its keys were first assigned.\<close>

definition insertion_order :: "completed_ops \<Rightarrow> (string \<times> string) list" where
  "insertion_order ops = map snd ops"

text \<open>
  Objects as \<open>__init__\<close> leaves them with \<open>skipValidate\<close> set: plain sequences with
  three, one and two explicit items, and a file sequence over the second folder.
\<close>

definition plain_sequence_123 :: sequence where
  "plain_sequence_123 =
     \<lparr> seq_class = AbstractSequence, seq_string = ''aaa010.0001'',
       input_items = Some [''aaa010.0003'', ''aaa010.0001'', ''aaa010.0002''],
       validateExists = False, parsed_values = None, sequence_items = [], built = False,
       regex_string = None, range_cache = None \<rparr>"

definition plain_sequence_1 :: sequence where
  "plain_sequence_1 =
     \<lparr> seq_class = AbstractSequence, seq_string = ''aaa010.0001'',
       input_items = Some [''aaa010.0001''],
       validateExists = False, parsed_values = None, sequence_items = [], built = False,
       regex_string = None, range_cache = None \<rparr>"

definition plain_sequence_12 :: sequence where
  "plain_sequence_12 =
     \<lparr> seq_class = AbstractSequence, seq_string = ''aaa010.0001'',
       input_items = Some [''aaa010.0001'', ''aaa010.0002''],
       validateExists = False, parsed_values = None, sequence_items = [], built = False,
       regex_string = None, range_cache = None \<rparr>"

definition file_sequence_12 :: sequence where
  "file_sequence_12 =
     \<lparr> seq_class = FileSequence, seq_string = ''/d/b.0001.png'', input_items = None,
       validateExists = True, parsed_values = None, sequence_items = [], built = False,
       regex_string = None, range_cache = None \<rparr>"

subsection \<open>Objects whose index is loaded\<close>

text \<open>
  After \<open>items\<close> has been read once, the index is built, or the object is a parsed
  \<open>AbstractSequence\<close> without explicit items, whose index stays as it is.
\<close>

definition settled :: "sequence \<Rightarrow> bool" where
  "settled sq = (built sq \<or>
     (seq_class sq = AbstractSequence \<and> input_items sq = None \<and> parsed_values sq \<noteq> None))"

section \<open>Properties of membership and of the neighbours\<close>

text \<open>
  Claim C10.  For a sequence that parses, a string as long as the source string that starts
  with the prefix and ends with the suffix is part of the sequence, whatever stands in the
  slot; and when the slot of such a string is not all digits, \<open>num\<close> returns \<open>None\<close> and
  does not raise.
\<close>

theorem membership_ignores_the_slot:
  assumes "get_values fs sq = Inr v"
      and "length s = length (seq_string sq)"
      and "startswith s (match_prefix v)"
      and "endswith s (match_suffix v)"
  shows "is_part_of_sequence fs sq s = Inr True
       \<and> (\<not> isdigit (slice s (m_start (pv_primary_match v))
                        (nat (int (m_start (pv_primary_match v)) + pv_padding v)))
            \<longrightarrow> num fs sq s = Inr None)"
  using assms by (simp add: is_part_of_sequence_def num_def Let_def)


theorem membership_ignores_the_slot_witness:
  "get_pound_string [] plain_sequence_123 None = Inr ''aaa010.####''
   \<and> is_part_of_sequence [] plain_sequence_123 ''aaa010.####'' = Inr True
   \<and> num [] plain_sequence_123 ''aaa010.####'' = Inr None"
proof -
  let ?s = "''aaa010.####''"
  have g: "map_sum id
             (\<lambda>v. (startswith ?s (match_prefix v), endswith ?s (match_suffix v),
                   isdigit (slice ?s (m_start (pv_primary_match v))
                              (nat (int (m_start (pv_primary_match v)) + pv_padding v)))))
             (get_values [] plain_sequence_123) = Inr (True, True, False)"
    by code_simp
  then obtain v where v: "get_values [] plain_sequence_123 = Inr v"
    and h: "startswith ?s (match_prefix v)" "endswith ?s (match_suffix v)"
      "\<not> isdigit (slice ?s (m_start (pv_primary_match v))
                        (nat (int (m_start (pv_primary_match v)) + pv_padding v)))"
    by (cases "get_values [] plain_sequence_123") auto
  have l: "length ?s = length (seq_string plain_sequence_123)"
    by (simp add: plain_sequence_123_def)
  have ps: "get_pound_string [] plain_sequence_123 None = Inr ?s" by code_simp
  show ?thesis
    using membership_ignores_the_slot[OF v l h(1,2)] h(3) ps by simp
qed

lemma index_of_last:
  "distinct xs \<Longrightarrow> xs \<noteq> [] \<Longrightarrow> index_of (last xs) xs = length xs - 1"
proof (induction xs)
  case (Cons a xs)
  show ?case
  proof (cases "xs = []")
    case False
    then have "last xs \<in> set xs" by simp
    then have "last xs \<noteq> a" using Cons(2) by auto
    then show ?thesis using Cons False by simp
  qed simp
qed simp

lemma sorted_le_last_linorder:
  fixes xs :: "('a :: linorder) list"
  shows "sorted xs \<Longrightarrow> z \<in> set xs \<Longrightarrow> z \<le> last xs"
proof (induction xs)
  case (Cons a xs)
  then show ?case by (cases "xs = []") auto
qed simp

lemma sorted_max_is_last:
  fixes xs :: "int option list"
  assumes "sorted xs" "Some k \<in> set xs" "\<forall>j. Some j \<in> set xs \<longrightarrow> j \<le> k"
  shows "last xs = Some k"
proof -
  have ne: "xs \<noteq> []" using assms(2) by auto
  have le: "Some k \<le> last xs"
    using assms(1,2) by (rule sorted_le_last_linorder)
  have li: "last xs \<in> set xs" using ne by simp
  obtain j where j: "last xs = Some j" using le by (cases "last xs") auto
  have "j \<le> k" using li j assms(3) by auto
  moreover have "k \<le> j" using le j by simp
  ultimately show ?thesis using j by simp
qed

lemma sorted_min_is_first:
  fixes xs :: "int option list"
  assumes "sorted xs" "Some k \<in> set xs" "None \<notin> set xs" "\<forall>j. Some j \<in> set xs \<longrightarrow> k \<le> j"
  shows "index_of (Some k) xs = 0"
proof (cases xs)
  case Nil
  then show ?thesis using assms(2) by simp
next
  case (Cons a ys)
  then obtain j where a: "a = Some j" using assms(3) by (cases a) auto
  have "a \<le> Some k" using assms(1,2) Cons by auto
  then have "j \<le> k" using a by simp
  moreover have "k \<le> j" using assms(4) a Cons by auto
  ultimately show ?thesis using Cons a by simp
qed

text \<open>
  When the numbers that \<open>numbers\<close> lists ascend without repetition, the two functions do at
  the ends what their docstrings say: at the greatest number \<open>get_next_item\<close> returns
  \<open>None\<close>; at the least number \<open>get_previous_item\<close> returns \<open>None\<close> when every item of the
  index has a number; for a number that is not in the index both raise \<open>ValueError\<close>.
\<close>

lemma neighbours_at_the_ends:
  assumes v: "get_values fs sq = Inr v"
      and n: "numbers fs sq = Inr (ns, sq1)"
      and s: "sorted ns" and d: "distinct ns"
  shows "(Some k \<in> set ns \<and> (\<forall>j. Some j \<in> set ns \<longrightarrow> j \<le> k)
            \<longrightarrow> get_next_item fs sq (Some k) = Inr None)
       \<and> (Some k \<in> set ns \<and> None \<notin> set ns \<and> (\<forall>j. Some j \<in> set ns \<longrightarrow> k \<le> j)
            \<longrightarrow> get_previous_item fs sq (Some k) = Inr None)
       \<and> (Some k \<notin> set ns
            \<longrightarrow> get_next_item fs sq (Some k) = Inl ValueError
              \<and> get_previous_item fs sq (Some k) = Inl ValueError)"
proof -
  have nx: "get_next_item fs sq (Some k) = Inr None"
    if h: "Some k \<in> set ns" "\<forall>j. Some j \<in> set ns \<longrightarrow> j \<le> k"
  proof -
    have ne: "ns \<noteq> []" using h(1) by auto
    have "index_of (Some k) ns = length ns - 1"
      using index_of_last[OF d ne] sorted_max_is_last[OF s h] by simp
    then show ?thesis using h(1) by (simp add: get_next_item_def v n)
  qed
  have pv: "get_previous_item fs sq (Some k) = Inr None"
    if h: "Some k \<in> set ns" "None \<notin> set ns" "\<forall>j. Some j \<in> set ns \<longrightarrow> k \<le> j"
    using sorted_min_is_first[OF s h] h(1) by (simp add: get_previous_item_def v n)
  have ab: "get_next_item fs sq (Some k) = Inl ValueError
              \<and> get_previous_item fs sq (Some k) = Inl ValueError"
    if "Some k \<notin> set ns"
    using that by (simp add: get_next_item_def get_previous_item_def v n)
  show ?thesis using nx pv ab by blast
qed

lemma neighbours_at_the_ends_of_three_items:
  "get_next_item [] plain_sequence_123 (Some 3) = Inr None
   \<and> get_previous_item [] plain_sequence_123 (Some 1) = Inr None
   \<and> get_next_item [] plain_sequence_123 (Some 4) = Inl ValueError
   \<and> get_previous_item [] plain_sequence_123 (Some 4) = Inl ValueError"
proof -
  have "map_sum id (\<lambda>v. ()) (get_values [] plain_sequence_123) = Inr ()" by code_simp
  then obtain v where v: "get_values [] plain_sequence_123 = Inr v"
    by (cases "get_values [] plain_sequence_123") auto
  have "map_sum id fst (numbers [] plain_sequence_123) = Inr [Some 1, Some 2, Some 3]"
    by code_simp
  then obtain sq1 where n: "numbers [] plain_sequence_123 = Inr ([Some 1, Some 2, Some 3], sq1)"
    by (cases "numbers [] plain_sequence_123") auto
  have s: "sorted [Some 1, Some 2, Some (3::int)]" by simp
  have d: "distinct [Some 1, Some 2, Some (3::int)]" by simp
  show ?thesis
    using neighbours_at_the_ends[OF v n s d, of 3] neighbours_at_the_ends[OF v n s d, of 1]
      neighbours_at_the_ends[OF v n s d, of 4]
    by simp
qed

text \<open>
  Claim C8.  \<open>get_next_item\<close> and \<open>get_previous_item\<close> look the number up in \<open>numbers\<close>,
  the numbers read from the item strings, and take the neighbour from the keys of the
  index; \<open>_build_sequence_items_from_input\<close> stores the source string under
  \<open>currentItemNumber\<close>, not under the number of the string.  After
  \<open>currentItemNumber = 2\<close> on the sequence \<open>aaa010.0001\<close> with the one explicit item
  \<open>aaa010.0001\<close>, the index has the keys 1 and 2, both with the string \<open>aaa010.0001\<close>, and
  \<open>numbers\<close> is \<open>[1, 1]\<close>.  Then \<open>get_next_item(1)\<close> returns \<open>aaa010.0002\<close> although 1 is the
  greatest number, \<open>get_next_item(2)\<close> raises \<open>ValueError\<close> although 2 is the greatest key,
  and \<open>get_previous_item(2)\<close> raises as well.
\<close>

theorem neighbours_after_assigning_the_current_number:
  "(case init_sequence AbstractSequence [] ''aaa010.0001'' (Some [''aaa010.0001''])
           False False False of
      Inl e \<Rightarrow> None
    | Inr sq \<Rightarrow>
        (case set_currentItemNumber [] sq 2 of
           (r, sq1) \<Rightarrow>
             Some (r, map_sum id fst (items [] sq1), map_sum id fst (numbers [] sq1),
                   get_next_item [] sq1 (Some 1), get_next_item [] sq1 (Some 2),
                   get_previous_item [] sq1 (Some 2))))
   = Some (None, Inr [(Some 1, ''aaa010.0001''), (Some 2, ''aaa010.0001'')],
           Inr [Some 1, Some 1], Inr (Some ''aaa010.0002''), Inl ValueError, Inl ValueError)"
  by code_simp
section \<open>Properties of the range and gap calculator\<close>

lemma groupby_count_keys_hd:
  "\<exists>g gs. groupby (count_keys c (y # zs)) = (c - y, y, g) # gs"
  by (cases "groupby (count_keys (c + 1) zs)") (auto split: if_splits)

lemma spec_runs_nonempty: "spec_runs (y # zs) \<noteq> []"
  by (induction "y # zs" arbitrary: y zs rule: spec_runs.induct) (auto split: list.splits)

lemma groupby_runs:
  "map (\<lambda>(k, x, xs). x # xs) (groupby (count_keys c ns)) = spec_runs ns"
proof (induction ns arbitrary: c rule: spec_runs.induct)
  case 1
  then show ?case by simp
next
  case (2 x)
  then show ?case by simp
next
  case (3 x y zs)
  define G where "G = count_keys (c + 1) (y # zs)"
  obtain g gs where g: "groupby G = (c + 1 - y, y, g) # gs"
    unfolding G_def using groupby_count_keys_hd by blast
  have ih: "map (\<lambda>(k, x, xs). x # xs) (groupby G) = spec_runs (y # zs)"
  proof (cases "y = x + 1")
    case True
    then show ?thesis unfolding G_def by (rule 3(1))
  next
    case False
    then show ?thesis unfolding G_def by (rule 3(2))
  qed
  have unf: "count_keys c (x # y # zs) = (c - x, x) # G"
    by (simp add: G_def)
  show ?case
    unfolding unf using g ih by (auto split: list.splits)
qed

lemma spec_runs_concat: "concat (spec_runs ns) = ns"
  by (induction ns rule: spec_runs.induct) (auto split: list.splits)

lemma spec_runs_hd: "\<exists>r rs. spec_runs (y # zs) = (y # r) # rs"
  by (induction "y # zs" arbitrary: y zs rule: spec_runs.induct) (auto split: list.splits)

lemma spec_runs_consecutive: "list_all consecutive (spec_runs ns)"
proof (induction ns rule: spec_runs.induct)
  case (3 x y zs)
  obtain r rs where r: "spec_runs (y # zs) = (y # r) # rs" using spec_runs_hd by blast
  show ?case using 3 r by (auto)
qed auto

lemma spec_runs_no_empty: "list_all (\<lambda>r. r \<noteq> []) (spec_runs ns)"
proof (induction ns rule: spec_runs.induct)
  case (3 x y zs)
  obtain r rs where r: "spec_runs (y # zs) = (y # r) # rs" using spec_runs_hd by blast
  show ?case using 3 r by (auto)
qed auto

lemma spec_runs_maximal: "runs_maximal (spec_runs ns)"
proof (induction ns rule: spec_runs.induct)
  case (3 x y zs)
  obtain r rs where r: "spec_runs (y # zs) = (y # r) # rs" using spec_runs_hd by blast
  show ?case using 3 r by (cases rs) (auto)
qed auto

lemma consecutive_last: "consecutive (x # xs) \<Longrightarrow> last (x # xs) = x + int (length xs)"
  by (induction xs arbitrary: x) auto

lemma as_range_interval: "consecutive (x # xs) \<Longrightarrow> as_range (x, xs) = spec_interval (x # xs)"
  using consecutive_last[of x xs] by (auto simp: spec_interval_def)

lemma as_range_blocks:
  "list_all consecutive (map (\<lambda>(k, x, xs). x # xs) gs) \<Longrightarrow>
   map (\<lambda>(k, g). as_range g) gs = map spec_interval (map (\<lambda>(k, x, xs). x # xs) gs)"
  by (induction gs) (auto simp: as_range_interval simp del: as_range.simps)

lemma grouped_numbers_spec: "grouped_numbers ns = map spec_interval (spec_runs ns)"
  using as_range_blocks[of "groupby (count_keys 0 ns)"] spec_runs_consecutive[of ns]
  by (simp add: grouped_numbers_def groupby_runs)

lemma map_add_upto: "map ((+) x) [a..b] = [x + a..x + b]"
proof (induction "nat (b - a + 1)" arbitrary: a)
  case 0
  then show ?case by simp
next
  case (Suc n)
  then have "a \<le> b" "n = nat (b - (a + 1) + 1)" by auto
  then show ?case using Suc(1)[of "a + 1"] by (simp add: upto_rec1[of a b] upto_rec1[of "x + a" "x + b"] add.assoc)
qed

lemma missing_index:
  "concat (map (\<lambda>(i, diff). map (\<lambda>d. (pre @ ns) ! i + d) (xrange 1 diff))
       (filter (\<lambda>(i, diff). diff > 1) (enumerate_from (length pre) (imap_sub (tl ns) ns))))
   = spec_missing ns"
proof (induction ns arbitrary: pre rule: spec_missing.induct)
  case (3 x y zs)
  have "(pre @ x # y # zs) = ((pre @ [x]) @ y # zs)" by simp
  then show ?case using 3[of "pre @ [x]"] by (auto simp: xrange_def nth_append map_add_upto)
qed auto

lemma missing_numbers_spec: "missing_numbers ns = spec_missing ns"
  using missing_index[of "[]" ns] by (simp add: missing_numbers_def)

lemma spec_missing_mem_step:
  "k \<in> set (spec_missing (x # y # zs)) \<longleftrightarrow>
     (x < k \<and> k < y) \<or> k \<in> set (spec_missing (y # zs))"
proof (cases "y - x > 1")
  case True
  then show ?thesis by auto
next
  case False
  then have n: "\<not> (x < k \<and> k < y)" by linarith
  have e: "spec_missing (x # y # zs) = spec_missing (y # zs)" using False by simp
  show ?thesis unfolding e using n by blast
qed

lemma sorted_last_ge: "sorted (y # zs) \<Longrightarrow> y \<le> last (y # zs)"
proof -
  assume s: "sorted (y # zs)"
  have "last (y # zs) \<in> set (y # zs)" by (rule last_in_set) simp
  then show ?thesis using s by auto
qed

lemma spec_missing_mem:
  "sorted (x # ns) \<Longrightarrow>
   k \<in> set (spec_missing (x # ns)) \<longleftrightarrow> x < k \<and> k < last (x # ns) \<and> k \<notin> set (x # ns)"
proof (induction ns arbitrary: x)
  case Nil
  then show ?case by simp
next
  case (Cons y zs)
  have ih: "k \<in> set (spec_missing (y # zs)) \<longleftrightarrow> y < k \<and> k < last (y # zs) \<and> k \<notin> set (y # zs)"
    using Cons by simp
  have le: "x \<le> y" "\<forall>z\<in>set zs. y \<le> z" using Cons(2) by auto
  have le3: "y \<le> last (y # zs)" using Cons(2) sorted_last_ge[of y zs] by simp
  note le = le le3
  have "k \<in> set (spec_missing (x # y # zs)) \<longleftrightarrow>
        (x < k \<and> k < y) \<or> k \<in> set (spec_missing (y # zs))"
    by (rule spec_missing_mem_step)
  also have "\<dots> \<longleftrightarrow> x < k \<and> k < last (x # y # zs) \<and> k \<notin> set (x # y # zs)"
  proof -
    have lst: "last (x # y # zs) = last (y # zs)" by simp
    consider "k < y" | "k = y" | "y < k" by linarith
    then show ?thesis
    proof cases
      case 1
      then have "k \<notin> set zs" "k \<noteq> y" "k < last (y # zs)" "\<not> y < k" using le by auto
      then show ?thesis unfolding ih lst using 1 by auto
    next
      case 2
      then show ?thesis unfolding ih lst by auto
    next
      case 3
      then have "x < k" "k \<noteq> x" "\<not> k < y" using le by auto
      then show ?thesis unfolding ih lst by auto
    qed
  qed
  finally show ?case .
qed


lemma spec_missing_sorted: "sorted ns \<Longrightarrow> sorted (spec_missing ns)"
proof (induction ns rule: spec_missing.induct)
  case (3 x y zs)
  have "\<forall>k\<in>set (spec_missing (y # zs)). y < k"
    using spec_missing_mem[of y zs] 3(2) by simp
  then show ?case using 3 by (auto simp: sorted_append)
qed auto

lemma intervals_sorted_aux:
  "sorted ns \<Longrightarrow>
   sorted (concat (map spec_interval (spec_runs ns))) \<and>
   set (concat (map spec_interval (spec_runs ns))) \<subseteq> set ns"
proof (induction ns rule: spec_runs.induct)
  case 1
  then show ?case by simp
next
  case (2 x)
  then show ?case by (simp add: spec_interval_def)
next
  case (3 x y zs)
  obtain r rs where r: "spec_runs (y # zs) = (y # r) # rs" using spec_runs_hd by blast
  let ?rest = "concat (map spec_interval rs)"
  have s: "sorted (y # zs)" and xy: "x \<le> y" and xz: "\<forall>z\<in>set (y # zs). x \<le> z"
    using 3(3) by auto
  have ih: "sorted (spec_interval (y # r) @ ?rest)" "set (spec_interval (y # r) @ ?rest) \<subseteq> set (y # zs)"
    using 3(1)[OF _ s] 3(2)[OF _ s] r by (cases "y = x + 1"; simp)+
  have lastin: "last (y # r) \<in> set (spec_interval (y # r))"
    by (simp add: spec_interval_def)
  show ?case
  proof (cases "y = x + 1")
    case True
    have runs: "spec_runs (x # y # zs) = (x # y # r) # rs" using True r by simp
    have iv: "spec_interval (x # y # r) = [x, last (y # r)]" by (simp add: spec_interval_def)
    define l where "l = last (y # r)"
    define R where "R = concat (map spec_interval rs)"
    have iv': "concat (map spec_interval ((x # y # r) # rs)) = [x, l] @ R"
      using iv by (simp add: l_def R_def)
    have a: "\<forall>k\<in>set R. l \<le> k"
      using ih(1) lastin unfolding l_def R_def sorted_append by blast
    have e: "l \<in> set (y # zs)" using lastin ih(2) unfolding l_def by auto
    have b: "x \<le> l" using e xz by blast
    have c: "sorted R" using ih(1) unfolding R_def sorted_append by blast
    have f: "set R \<subseteq> set (y # zs)" using ih(2) unfolding R_def by auto
    have "sorted ([x, l] @ R)" using a b c unfolding sorted_append by auto
    moreover have "set ([x, l] @ R) \<subseteq> set (x # y # zs)" using e f by auto
    ultimately show ?thesis unfolding runs iv' by blast
  next
    case False
    have runs: "spec_runs (x # y # zs) = [x] # (y # r) # rs" using False r by simp
    have iv: "spec_interval [x] = [x]" by (simp add: spec_interval_def)
    have d: "\<forall>k\<in>set (spec_interval (y # r) @ ?rest). x \<le> k" using ih(2) xz by blast
    show ?thesis unfolding runs using ih d by (auto simp: iv simp del: last.simps)
  qed
qed

lemma sorted_le_last: "sorted xs \<Longrightarrow> z \<in> set xs \<Longrightarrow> z \<le> (last xs :: int)"
proof (induction xs)
  case (Cons a xs)
  then show ?case by (cases "xs = []") auto
qed simp

lemma missing_between:
  assumes "sorted ns"
  shows "set (spec_missing ns) = {k. k \<notin> set ns \<and> (\<exists>a\<in>set ns. a < k) \<and> (\<exists>b\<in>set ns. k < b)}"
proof (cases ns)
  case Nil
  then show ?thesis by simp
next
  case (Cons x xs)
  have lo: "\<forall>z\<in>set (x # xs). x \<le> z" using assms Cons by auto
  have lastin: "last (x # xs) \<in> set (x # xs)" by (rule last_in_set) simp
  have hi: "\<forall>z\<in>set (x # xs). z \<le> last (x # xs)"
    using assms sorted_le_last unfolding Cons by blast
  have m: "\<And>k. k \<in> set (spec_missing (x # xs)) \<longleftrightarrow>
            x < k \<and> k < last (x # xs) \<and> k \<notin> set (x # xs)"
    using spec_missing_mem[of x xs] assms Cons by simp
  have "\<And>k. (\<exists>a\<in>set (x # xs). a < k) \<longleftrightarrow> x < k" using lo by force
  moreover have "\<And>k. (\<exists>b\<in>set (x # xs). k < b) \<longleftrightarrow> k < last (x # xs)"
    using hi lastin by force
  ultimately show ?thesis unfolding Cons using m by blast
qed

text \<open>
  The two computations on an ascending list of numbers.  \<open>range\<close> is the list of intervals
  of the maximal runs of consecutive integers: the runs concatenate to the numbers, each run
  is non-empty and consecutive, no run can be extended into the next one, a run of one
  number \<open>n\<close> is shown as \<open>[n]\<close> and a longer one as \<open>[lo, hi]\<close>, and the intervals ascend.
  \<open>missing\<close> lists, for each pair of neighbours more than 1 apart, the integers strictly
  between them: it ascends, and it holds exactly the absent integers that lie between two
  present numbers.
\<close>

lemma range_and_missing_of_ascending_numbers:
  assumes "sorted ns"
  shows "range_of_numbers (map Some ns) = Inr (map spec_interval (spec_runs ns))
       \<and> concat (spec_runs ns) = ns
       \<and> list_all consecutive (spec_runs ns)
       \<and> list_all (\<lambda>r. r \<noteq> []) (spec_runs ns)
       \<and> runs_maximal (spec_runs ns)
       \<and> sorted (concat (map spec_interval (spec_runs ns)))
       \<and> missing_of_numbers (map Some ns) = Inr (spec_missing ns)
       \<and> sorted (spec_missing ns)
       \<and> set (spec_missing ns) = {k. k \<notin> set ns \<and> (\<exists>a\<in>set ns. a < k) \<and> (\<exists>b\<in>set ns. k < b)}"
proof -
  have nn: "None \<notin> set (map Some ns)" by auto
  have m: "map the (map Some ns) = ns" by (simp add: comp_def)
  have 1: "range_of_numbers (map Some ns) = Inr (map spec_interval (spec_runs ns))"
    unfolding range_of_numbers_def using nn m by (simp add: grouped_numbers_spec del: set_map map_map)
  have 2: "missing_of_numbers (map Some ns) = Inr (spec_missing ns)"
    unfolding missing_of_numbers_def using nn m by (simp add: missing_numbers_spec del: set_map map_map)
  show ?thesis
    using 1 2 spec_runs_concat spec_runs_consecutive spec_runs_no_empty spec_runs_maximal
      intervals_sorted_aux[OF assms(1)] spec_missing_sorted[OF assms(1)] missing_between[OF assms(1)]
    by simp
qed

lemma range_and_missing_of_five_numbers:
  "range_of_numbers [Some 1, Some 2, Some 3, Some 5, Some 7] = Inr [[1, 3], [5], [7]]
   \<and> missing_of_numbers [Some 1, Some 2, Some 3, Some 5, Some 7] = Inr [4, 6]"
  using range_and_missing_of_ascending_numbers[of "[1, 2, 3, 5, 7]"]
  by (simp add: spec_interval_def upto_rec1)

text \<open>
  The properties \<open>range\<close> and \<open>missing\<close> of an object whose numbers ascend: \<open>missing\<close> is
  computed from the numbers at every call, and \<open>range\<close> is when nothing is kept in \<open>_range\<close>;
  what is kept is returned as it is.
\<close>

lemma range_and_missing_of_index:
  assumes n: "numbers fs sq = Inr (map Some ns, sq1)" and s: "sorted ns"
  shows "missing fs sq = Inr (spec_missing ns, sq1)"
    and "range_cache sq = None \<Longrightarrow>
           seq_range fs sq = Inr (map spec_interval (spec_runs ns),
                                  sq1\<lparr>range_cache := Some (map spec_interval (spec_runs ns))\<rparr>)"
    and "range_cache sq = Some r \<Longrightarrow> seq_range fs sq = Inr (r, sq)"
  using range_and_missing_of_ascending_numbers[OF s]
  by (simp_all add: missing_def seq_range_def n)

text \<open>
  Claim C3.  \<open>range\<close> returns what it kept in \<open>_range\<close>, and \<open>BaseSequence.__setitem__\<close>
  changes the index without resetting it.  On the sequence \<open>aaa010.0001\<close> with the items 1
  and 2, \<open>range\<close> is \<open>[[1, 2]]\<close>; after the item \<open>aaa010.0005\<close> has been assigned to the
  key 5 the numbers are 1, 2 and 5, \<open>missing\<close> is \<open>[3, 4]\<close>, and \<open>range\<close> is still
  \<open>[[1, 2]]\<close>, where the maximal runs of the numbers are \<open>[[1, 2], [5]]\<close>.
\<close>

theorem range_is_not_recomputed_after_item_assignment:
  "(case seq_range [] plain_sequence_12 of
      Inl e \<Rightarrow> None
    | Inr (r1, sq1) \<Rightarrow>
        (case setitem [] sq1 (Some 5) ''aaa010.0005'' of
           (e, sq2) \<Rightarrow>
             Some (r1, e, map_sum id fst (numbers [] sq2), map_sum id fst (missing [] sq2),
                   map_sum id fst (seq_range [] sq2),
                   range_of_numbers [Some 1, Some 2, Some 5])))
   = Some ([[1, 2]], None, Inr [Some 1, Some 2, Some 5], Inr [3, 4], Inr [[1, 2]],
           Inr [[1, 2], [5]])"
  by code_simp

section \<open>The code at particular inputs\<close>

text \<open>
  Claim C2.  The claim says that the rightmost slot wins, for a path sequence the rightmost
  one before the dot-delimited suffix, and the docstring of \<open>FileSequence\<close> says of
  \<open>mySequence.0020.something.0001\<close> that only \<open>0001\<close> is used.  The file pattern has no
  anchor after the slot other than the suffix group, which accepts any text that ends in an
  extension, so the lazy prefix stops at the first dot that is followed by a slot: the slot
  is \<open>0020\<close> and \<open>.something.0001\<close> is the suffix.
\<close>

theorem file_pattern_selects_leftmost_slot:
  "validate_path FileSequence [] False ''mySequence.0020.something.0001''
   = Inr (\<lparr>m_prefix = ''mySequence'', m_alternative = nums, m_sequence = ''0020'',
            m_start = 11, m_end = 15, m_suffix = Some ''.something.0001'',
            m_ext = Some ''.0001''\<rparr>, nums)"
  by code_simp

text \<open>The plain pattern, anchored at the end of the string, takes \<open>0001\<close> there.\<close>

lemma plain_pattern_selects_last_slot:
  "validate_path AbstractSequence [] False ''mySequence.0020.something.0001''
   = Inr (\<lparr>m_prefix = ''mySequence.0020.something.'', m_alternative = nums,
            m_sequence = ''0001'', m_start = 26, m_end = 30, m_suffix = None,
            m_ext = None\<rparr>, nums)"
  by code_simp

text \<open>
  Claim C6.  The source string \<open>aaa010.0000\<close> has the number 0, and the index built from
  the explicit items \<open>['aaa010.0001']\<close> has no key 0: \<open>AbstractSequence\<close> adds the source
  string under \<open>if self.currentItemNumber:\<close>, which is false for 0.
\<close>

theorem abstract_index_omits_source_number_zero:
  "(case init_sequence AbstractSequence [] ''aaa010.0000'' (Some [''aaa010.0001''])
            False False False of
      Inl e \<Rightarrow> None
    | Inr sq \<Rightarrow> Some (currentItemNumber [] sq, map_sum id fst (items [] sq)))
   = Some (Inr (Some 0), Inr [(Some 1, ''aaa010.0001'')])"
  by code_simp

text \<open>
  \<open>FileSequence\<close> adds the source path whenever it is part of the sequence, also for the
  number 0.
\<close>

lemma file_index_holds_source_number_zero:
  "(case init_sequence FileSequence [] ''/d/a.0000.png'' (Some [''/d/a.0001.png''])
            False False True of
      Inl e \<Rightarrow> None
    | Inr sq \<Rightarrow> Some (map_sum id fst (items [] sq)))
   = Some (Inr [(Some 0, ''/d/a.0000.png''), (Some 1, ''/d/a.0001.png'')])"
  by code_simp

text \<open>
  Claim C4.  The frames 1, 2 and 4 are not contiguous.  \<open>rename(startFrame=3)\<close>, with no
  padding and gaps not allowed, gets as far as the test
  \<open>int(padding) == int(self.padding) and ...\<close>, where \<open>int(None)\<close> raises \<open>TypeError\<close>: the
  contiguity test, which raises \<open>ValueError\<close>, is not reached.  Nothing has been moved and
  the source string is the old one.
\<close>

theorem rename_start_only_raises_type_error_on_gap:
  "(case init_sequence FileSequence folder_with_gap ''/d/a.0001.png'' None False True True of
      Inl e \<Rightarrow> None
    | Inr sq \<Rightarrow>
        (case rename insertion_order folder_with_gap sq None (Some 3) False False False None of
           (r, sq', fs') \<Rightarrow>
             Some (map_sum id fst (seq_range folder_with_gap sq), r, seq_string sq',
                   fs' = folder_with_gap)))
   = Some (Inr [[1, 2], [4]], Some TypeError, ''/d/a.0001.png'', True)"
  by code_simp

text \<open>With a padding the same sequence does raise \<open>ValueError\<close>.\<close>

lemma rename_with_padding_raises_value_error_on_gap:
  "(case init_sequence FileSequence folder_with_gap ''/d/a.0001.png'' None False True True of
      Inl e \<Rightarrow> None
    | Inr sq \<Rightarrow>
        (case rename insertion_order folder_with_gap sq (Some 5) (Some 3) False False False None of
           (r, sq', fs') \<Rightarrow> Some (r, seq_string sq', fs' = folder_with_gap)))
   = Some (Some ValueError, ''/d/a.0001.png'', True)"
  by code_simp

text \<open>
  Claim C7.  A dry run that asks for padding 5 on the contiguous frames 1 and 2 produces no
  plan: it raises \<open>AttributeError\<close> while the plan is built, at \<open>item.path\<close> of the first key.
\<close>

theorem dry_run_raises_before_any_plan:
  "(case init_sequence FileSequence folder_contiguous ''/d/b.0001.png'' None False True True of
      Inl e \<Rightarrow> None
    | Inr sq \<Rightarrow>
        (case rename insertion_order folder_contiguous sq (Some 5) None False False True None of
           (r, sq', fs') \<Rightarrow> Some (r, seq_string sq', fs' = folder_contiguous)))
   = Some (Some AttributeError, ''/d/b.0001.png'', True)"
  by code_simp

text \<open>
  What follows the plan would not keep a dry run free of effects either: given the plan
  that the loop was written to build, a dry run ends with \<open>setSource\<close> and the source string
  is the new one.
\<close>

lemma dry_run_of_a_plan_changes_the_source:
  "(case init_sequence FileSequence folder_contiguous ''/d/b.0001.png'' None False True True of
      Inl e \<Rightarrow> None
    | Inr sq \<Rightarrow>
        (case get_values folder_contiguous sq of
           Inl e \<Rightarrow> None
         | Inr v \<Rightarrow>
             (case run_plan insertion_order folder_contiguous sq v 5 0 False False True None
                     [(''/d/b.0001.png'', ''/d/b.00001.png''),
                      (''/d/b.0002.png'', ''/d/b.00002.png'')] of
                (r, sq', fs') \<Rightarrow> Some (r, seq_string sq', fs' = folder_contiguous))))
   = Some (None, ''/d/b.00001.png'', True)"
  by code_simp

text \<open>
  The moves and the undo loop of \<open>rename\<close> are never reached (lemma
  \<open>build_rename_paths_raises\<close> below), so the two lemmas that follow run them on a plan
  given by hand, in the reversed order that \<open>rename(padding=5)\<close> would choose.  With the
  default \<open>progressCB=None\<close> the first \<open>os.rename\<close> succeeds, the call
  \<open>progressCB(index, ...)\<close> that follows it raises \<open>TypeError\<close> outside the \<open>try\<close>, and the
  undo loop is not entered: frame 2 has its new name, frame 1 its old one.
\<close>

lemma unreached_loop_does_not_undo_when_the_callback_raises:
  "(case init_sequence FileSequence folder_contiguous ''/d/b.0001.png'' None False True True of
      Inl e \<Rightarrow> None
    | Inr sq \<Rightarrow>
        (case get_values folder_contiguous sq of
           Inl e \<Rightarrow> None
         | Inr v \<Rightarrow>
             (case run_plan insertion_order folder_contiguous sq v 5 0 True False False None
                     [(''/d/b.0001.png'', ''/d/b.00001.png''),
                      (''/d/b.0002.png'', ''/d/b.00002.png'')] of
                (r, sq', fs') \<Rightarrow>
                  Some (r, map (os_path_exists fs')
                             [''/d/b.0001.png'', ''/d/b.00001.png'',
                              ''/d/b.0002.png'', ''/d/b.00002.png'']))))
   = Some (Some TypeError, [True, False, False, True])"
  by code_simp

text \<open>
  With a callback that returns, a move that fails is caught, the completed move is undone,
  and the loop ends without an error.
\<close>

lemma unreached_loop_undoes_a_failed_move_and_reports_nothing:
  "(case init_sequence FileSequence folder_contiguous ''/d/b.0001.png'' None False True True of
      Inl e \<Rightarrow> None
    | Inr sq \<Rightarrow>
        (case get_values folder_contiguous sq of
           Inl e \<Rightarrow> None
         | Inr v \<Rightarrow>
             (case run_plan insertion_order folder_contiguous sq v 5 0 True False False
                     (Some (\<lambda>i n. None))
                     [(''/d/b.0003.png'', ''/d/b.00003.png''),
                      (''/d/b.0001.png'', ''/d/b.00001.png'')] of
                (r, sq', fs') \<Rightarrow>
                  Some (r, seq_string sq', map (os_path_exists fs')
                             [''/d/b.0001.png'', ''/d/b.00001.png'']))))
   = Some (None, ''/d/b.0001.png'', [True, False])"
  by code_simp

text \<open>
  Claim C1.  \<open>get_regex_string\<close> returns what it kept in \<open>_regex_string\<close> whatever the
  padding it is asked for.  On the sequence \<open>aaa010.0001\<close>, \<open>get_regex_string()\<close> renders
  at the padding 4 of the sequence; \<open>get_regex_string(padding=2)\<close> then returns the same
  string, and classifying it gives the flavor \<open>regex\<close> with the padding 4, not 2.  The
  other three template renderers do render at padding 2 on the same object.
\<close>

theorem regex_string_is_not_rendered_again_for_another_padding:
  "(case init_sequence AbstractSequence [] ''aaa010.0001'' None False False False of
      Inl e \<Rightarrow> None
    | Inr sq \<Rightarrow>
        (case get_regex_string [] sq None of
           Inl e \<Rightarrow> None
         | Inr (r1, sq1) \<Rightarrow>
             (case get_regex_string [] sq1 (Some 2) of
                Inl e \<Rightarrow> None
              | Inr (r2, sq2) \<Rightarrow>
                  Some (r1, r2, classify r2,
                        map_sum id classify (get_pound_string [] sq2 (Some 2)),
                        map_sum id classify (get_format_string [] sq2 (Some 2) None),
                        map_sum id classify (get_percent_string [] sq2 (Some 2))))))
   = Some (''aaa010.'' @ backslash # ''d{4}'', ''aaa010.'' @ backslash # ''d{4}'',
           Inr (regex, 4), Inr (Inr (pounds, 2)), Inr (Inr (formatstring, 2)),
           Inr (Inr (percent, 2)))"
  by code_simp

text \<open>
  A first call of \<open>get_regex_string\<close> renders at the padding asked for.
\<close>

lemma regex_string_first_call:
  "(case init_sequence AbstractSequence [] ''aaa010.0001'' None False False False of
      Inl e \<Rightarrow> None
    | Inr sq \<Rightarrow> Some (map_sum id (\<lambda>(r, sq'). classify r) (get_regex_string [] sq (Some 2))))
   = Some (Inr (Inr (regex, 2)))"
  by code_simp

text \<open>
  The law has a second limit, which is not a slip of the code: the pattern takes the
  leftmost start from which the rest of the string is one slot, so a text before the slot
  that ends like the rendered slot is read as part of it.  The sequence \<open>a#0001\<close> rendered
  with two pounds is \<open>a###\<close>, of padding 3.
\<close>

lemma pound_string_after_a_pound:
  "(case init_sequence AbstractSequence [] ''a#0001'' None False False False of
      Inl e \<Rightarrow> None
    | Inr sq \<Rightarrow> Some (get_pound_string [] sq (Some 2),
                       map_sum id classify (get_pound_string [] sq (Some 2))))
   = Some (Inr ''a###'', Inr (Inr (pounds, 3)))"
  by code_simp
section \<open>Properties of \<open>rename\<close>\<close>

subsection \<open>What is memoised does not change what is read\<close>

lemma ensure_parsed_parsed:
  "parsed_values sq = Some v \<Longrightarrow> ensure_parsed fs sq = Inr sq"
  by (simp add: ensure_parsed_def get_values_def)

lemma ensure_parsed_fields:
  "ensure_parsed fs sq = Inr sq1 \<Longrightarrow>
     parsed_values sq1 \<noteq> None \<and> built sq1 = built sq \<and> seq_class sq1 = seq_class sq
     \<and> input_items sq1 = input_items sq \<and> seq_string sq1 = seq_string sq
     \<and> sequence_items sq1 = sequence_items sq"
  by (auto simp: ensure_parsed_def split: sum.splits)

lemma loadSequenceItems_settled:
  "loadSequenceItems fs sq = Inr sq1 \<Longrightarrow> settled sq1 \<and> seq_string sq1 = seq_string sq"
  unfolding loadSequenceItems_def settled_def
  by (auto split: sum.splits seq_class.splits option.splits if_splits dest!: ensure_parsed_fields)

lemma items_settled:
  "items fs sq = Inr (its, sq1) \<Longrightarrow>
     settled sq1 \<and> its = sequence_items sq1 \<and> seq_string sq1 = seq_string sq"
  unfolding items_def
  by (auto simp: settled_def split: if_splits sum.splits dest!: loadSequenceItems_settled)

lemma settled_items: "settled sq \<Longrightarrow> items fs sq = Inr (sequence_items sq, sq)"
  unfolding items_def settled_def loadSequenceItems_def
  by (auto simp: ensure_parsed_parsed)

lemma numbers_settled:
  "numbers fs sq = Inr (ns, sq1) \<Longrightarrow>
     settled sq1 \<and> seq_string sq1 = seq_string sq \<and> numbers fs sq1 = Inr (ns, sq1)
     \<and> items fs sq = Inr (sequence_items sq1, sq1)
     \<and> length ns = length (sequence_items sq1)"
proof -
  assume n: "numbers fs sq = Inr (ns, sq1)"
  then obtain its where i: "items fs sq = Inr (its, sq1)"
    and c: "collect (map (\<lambda>s. num fs sq1 (snd s)) its) = Inr ns"
    unfolding numbers_def by (auto split: sum.splits)
  have s: "settled sq1" "its = sequence_items sq1" "seq_string sq1 = seq_string sq"
    using items_settled[OF i] by auto
  have len: "\<And>xs ys. collect xs = Inr ys \<Longrightarrow> length ys = length (xs :: (py_error + int option) list)"
  proof -
    fix xs :: "(py_error + int option) list" and ys
    show "collect xs = Inr ys \<Longrightarrow> length ys = length xs"
      by (induction xs arbitrary: ys) (auto split: sum.splits)
  qed
  have "numbers fs sq1 = Inr (ns, sq1)"
    unfolding numbers_def using settled_items[OF s(1)] c s(2) by simp
  then show ?thesis using s i c len[OF c] by simp
qed

lemma loadSequenceItems_class:
  "loadSequenceItems fs sq = Inr sq1 \<Longrightarrow> seq_class sq1 = seq_class sq"
  unfolding loadSequenceItems_def
  by (auto split: sum.splits seq_class.splits option.splits if_splits dest!: ensure_parsed_fields)

lemma numbers_class:
  "numbers fs sq = Inr (ns, sq1) \<Longrightarrow> seq_class sq1 = seq_class sq"
  unfolding numbers_def items_def
  by (auto split: sum.splits if_splits dest!: loadSequenceItems_class)

lemma parse_values_range_cache [simp]:
  "parse_values fs (sq\<lparr>range_cache := c\<rparr>) = parse_values fs sq"
  by (simp add: parse_values_def cong: sum.case_cong prod.case_cong)

lemma get_values_range_cache [simp]:
  "get_values fs (sq\<lparr>range_cache := c\<rparr>) = get_values fs sq"
  by (simp add: get_values_def cong: option.case_cong)

lemma is_part_of_sequence_range_cache [simp]:
  "is_part_of_sequence fs (sq\<lparr>range_cache := c\<rparr>) = is_part_of_sequence fs sq"
  by (rule ext) (simp add: is_part_of_sequence_def cong: sum.case_cong)

lemma num_range_cache [simp]: "num fs (sq\<lparr>range_cache := c\<rparr>) = num fs sq"
  by (rule ext) (simp add: num_def cong: sum.case_cong)

lemma settled_range_cache [simp]: "settled (sq\<lparr>range_cache := c\<rparr>) = settled sq"
  by (simp add: settled_def)

lemma numbers_range_cache:
  "settled sq \<Longrightarrow> numbers fs sq = Inr (ns, sq) \<Longrightarrow>
   numbers fs (sq\<lparr>range_cache := c\<rparr>) = Inr (ns, sq\<lparr>range_cache := c\<rparr>)"
  unfolding numbers_def
  by (auto simp: settled_items split: sum.splits)

lemma seq_range_state:
  "settled sq \<Longrightarrow> numbers fs sq = Inr (ns, sq) \<Longrightarrow> seq_range fs sq = Inr (rg, sq1) \<Longrightarrow>
   (sq1 = sq \<or> sq1 = sq\<lparr>range_cache := Some rg\<rparr>)"
  unfolding seq_range_def by (auto split: option.splits sum.splits)

subsection \<open>The plan is never built\<close>

lemma build_rename_paths_raises:
  "build_rename_paths pre suf P off (x # xs) \<noteq> Inr paths"
  by (cases x) (auto simp: item_path_def split: option.splits sum.splits)

lemma build_rename_paths_attribute_error:
  "build_rename_paths pre suf P off ((item, Some k) # xs) = Inl AttributeError"
  by (simp add: item_path_def)

lemma no_change_tests_without_padding:
  "no_change_tests fs sq None (Some k) \<noteq> Proceed"
  by (simp add: no_change_tests_def py_and_def int_eq_def int_arg_def split: sum.splits)

lemma rename_checks_cases:
  "rename_checks fs sq p s = (c, sq1) \<Longrightarrow>
     (c = Return \<and> sq1 = sq \<and> p = None \<and> s = None)
   \<or> (\<exists>e. c = Raise e \<and> sq1 = sq)
   \<or> (\<exists>its. items fs sq = Inr (its, sq1) \<and> (c = Return \<or> (\<exists>e. c = Raise e)))
   \<or> (\<exists>ns. numbers fs sq = Inr (ns, sq1) \<and> ns \<noteq> [] \<and> \<not> (p = None \<and> s = None)
          \<and> c = no_change_tests fs sq1 p s)"
proof -
  assume r: "rename_checks fs sq p s = (c, sq1)"
  show ?thesis
  proof (cases "p = None \<and> s = None")
    case True
    then show ?thesis using r by (simp add: rename_checks_def)
  next
    case np: False
    show ?thesis
    proof (cases "items fs sq")
      case (Inl e)
      then show ?thesis using r np by (auto simp: rename_checks_def)
    next
      case (Inr x)
      obtain its sqa where x: "x = (its, sqa)" by (cases x)
      note i = Inr[unfolded x]
      have sa: "settled sqa" "its = sequence_items sqa" using items_settled[OF i] by auto
      show ?thesis
      proof (cases "its = []")
        case True
        then show ?thesis using r np i by (auto simp: rename_checks_def)
      next
        case ie: False
        show ?thesis
        proof (cases "numbers fs sqa")
          case (Inl e)
          then show ?thesis using r np i ie by (auto simp: rename_checks_def)
        next
          case (Inr y)
          obtain ns sqb where y: "y = (ns, sqb)" by (cases y)
          note n = Inr[unfolded y]
          have "items fs sqa = Inr (sequence_items sqb, sqb)" using numbers_settled[OF n] by simp
          then have eq: "sqb = sqa" using settled_items[OF sa(1), of fs] by simp
          have nsq: "numbers fs sq = Inr (ns, sqa)"
            using n i unfolding numbers_def eq by (simp add: settled_items[OF sa(1)] sa(2))
          show ?thesis
          proof (cases "ns = []")
            case True
            then show ?thesis using r np i ie n eq by (auto simp: rename_checks_def)
          next
            case False
            then have "c = no_change_tests fs sqa p s" "sq1 = sqa"
              using r np i ie n eq by (auto simp: rename_checks_def)
            then show ?thesis using nsq False np by auto
          qed
        qed
      qed
    qed
  qed
qed

lemma rename_checks_string:
  "rename_checks fs sq p s = (c, sq1) \<Longrightarrow> seq_string sq1 = seq_string sq"
  by (drule rename_checks_cases) (auto dest!: items_settled numbers_settled)

lemma rename_checks_proceed:
  assumes "rename_checks fs sq p s = (Proceed, sq1)"
  shows "\<exists>ns P. numbers fs sq = Inr (ns, sq1) \<and> ns \<noteq> [] \<and> p = Some P
           \<and> no_change_tests fs sq1 p s = Proceed"
proof -
  from rename_checks_cases[OF assms]
  obtain ns where n: "numbers fs sq = Inr (ns, sq1)" "ns \<noteq> []" "\<not> (p = None \<and> s = None)"
    "Proceed = no_change_tests fs sq1 p s" by auto
  have "p \<noteq> None"
  proof
    assume pn: "p = None"
    then obtain k where "s = Some k" using n(3) by auto
    then show False using n(4) pn no_change_tests_without_padding by metis
  qed
  then show ?thesis using n by auto
qed

lemma plan_and_run_raises:
  assumes st: "settled sq" and n: "numbers fs sq = Inr (first # rest, sq)"
    and r: "plan_and_run vo fs sq p s rep dry cb = (r, sq', fs')"
  shows "fs' = fs \<and> sq' = sq \<and> r \<noteq> None
       \<and> ((\<exists>k. first = Some k) \<longrightarrow> r = Some AttributeError)
       \<and> (first = None \<longrightarrow> r = Some TypeError)"
proof (cases "get_values fs sq")
  case (Inl e)
  have "items fs sq = Inr (sequence_items sq, sq)" by (rule settled_items[OF st])
  then have "collect (map (\<lambda>s. num fs sq (snd s)) (sequence_items sq)) = Inr (first # rest)"
    using n unfolding numbers_def by (auto split: sum.splits)
  then obtain it its where "sequence_items sq = it # its" "num fs sq (snd it) = Inr first"
    by (cases "sequence_items sq") (auto split: sum.splits)
  then have False using Inl by (simp add: num_def)
  then show ?thesis ..
next
  case (Inr v)
  have "length (first # rest) = length (sequence_items sq)"
    using numbers_settled[OF n] by simp
  then obtain it its where si: "sequence_items sq = it # its"
    by (cases "sequence_items sq") auto
  obtain item x where it: "it = (item, x)" by (cases it)
  define P where "P = (case p of None \<Rightarrow> pv_padding v | Some P' \<Rightarrow> P')"
  define sf where "sf = (case s of None \<Rightarrow> first | Some s' \<Rightarrow> Some s')"
  define off where "off = (case sf of
                                None \<Rightarrow> Inr 0
                              | Some s \<Rightarrow>
                                  if s = 0 then Inr 0
                                  else (case first of
                                          None \<Rightarrow> Inl TypeError
                                        | Some f \<Rightarrow> Inr (s - f)))"
  have z: "zip (map fst (sequence_items sq)) (first # rest) = (item, first) # zip (map fst its) rest"
    by (simp add: si it)
  have unf: "plan_and_run vo fs sq p s rep dry cb =
      (case off of Inl e \<Rightarrow> (Some e, sq, fs)
       | Inr frameOffset \<Rightarrow>
          (case build_rename_paths (match_prefix v) (match_suffix v) P frameOffset
                   ((item, first) # zip (map fst its) rest) of
             Inl e \<Rightarrow> (Some e, sq, fs)
           | Inr renamePaths \<Rightarrow>
               run_plan vo fs sq v P frameOffset
                 (\<not> (sf = None \<or> sf = Some 0 \<or> sf < first)) rep dry cb renamePaths))"
    unfolding plan_and_run_def Inr n
    by (simp add: P_def sf_def off_def Let_def z cong: sum.case_cong)
  show ?thesis
  proof (cases off)
    case (Inl e)
    have "first = None \<and> e = TypeError"
      using Inl unfolding off_def by (auto split: option.splits if_splits)
    then show ?thesis using r by (auto simp add: unf Inl)
  next
    case o: (Inr frameOffset)
    obtain e where b: "build_rename_paths (match_prefix v) (match_suffix v) P frameOffset
                   ((item, first) # zip (map fst its) rest) = Inl e"
      using build_rename_paths_raises
      by (metis sum.exhaust_sel sum.collapse(1) isl_def)
    have "(\<exists>k. first = Some k) \<longrightarrow> e = AttributeError"
      using b build_rename_paths_attribute_error by auto
    moreover have "first = None \<longrightarrow> e = TypeError"
      using b by auto
    ultimately show ?thesis using r
      by (auto simp add: unf o b simp del: build_rename_paths.simps)
  qed
qed


subsection \<open>What a call of \<open>rename\<close> does\<close>

lemma rename_outcome:
  assumes R: "rename vo fs sq p s ig rep dry cb = (r, sq', fs')"
  shows "fs' = fs
       \<and> seq_string sq' = seq_string sq
       \<and> (r = None \<longleftrightarrow> fst (rename_checks fs sq p s) = Return)
       \<and> (\<forall>k ns sqn f. p = None \<and> s = Some k \<and> numbers fs sq = Inr (ns, sqn) \<and> ns \<noteq> []
              \<and> first_number_int fs sqn = Inr f \<and> f \<noteq> k \<longrightarrow> r = Some TypeError)
       \<and> (\<forall>k ns sqn. seq_class sq = AbstractSequence \<and> p = None \<and> s = Some k
              \<and> numbers fs sq = Inr (ns, sqn) \<and> ns \<noteq> [] \<longrightarrow> r = Some AttributeError)
       \<and> (\<forall>n ns sqn. fst (rename_checks fs sq p s) = Proceed
              \<and> numbers fs sq = Inr (Some n # ns, sqn)
              \<and> (ig \<or> (\<exists>rg sqr. seq_range fs sqn = Inr (rg, sqr) \<and> length rg \<le> 1))
              \<longrightarrow> r = Some AttributeError)
       \<and> (\<forall>ns sqn. fst (rename_checks fs sq p s) = Proceed
              \<and> numbers fs sq = Inr (None # ns, sqn)
              \<and> (ig \<or> (\<exists>rg sqr. seq_range fs sqn = Inr (rg, sqr) \<and> length rg \<le> 1))
              \<longrightarrow> r = Some TypeError)"
proof -
  obtain c sq1 where ch: "rename_checks fs sq p s = (c, sq1)" by (cases "rename_checks fs sq p s")
  have str1: "seq_string sq1 = seq_string sq" by (rule rename_checks_string[OF ch])
  have reach: "rename_checks fs sq p s = (no_change_tests fs sqn p s, sqn)"
    if h: "p = None" "s = Some k" "numbers fs sq = Inr (ns, sqn)" "ns \<noteq> []" for k ns sqn
  proof -
    have i: "items fs sq = Inr (sequence_items sqn, sqn)" "length ns = length (sequence_items sqn)"
      "numbers fs sqn = Inr (ns, sqn)" "settled sqn"
      using numbers_settled[OF h(3)] by auto
    have ne: "sequence_items sqn \<noteq> []" using i(2) h(4) by auto
    show ?thesis unfolding rename_checks_def using h(1,2,4) i ne by simp
  qed
  have start_only: "c = Raise TypeError"
    if h: "p = None" "s = Some k" "numbers fs sq = Inr (ns, sqn)" "ns \<noteq> []"
          "first_number_int fs sqn = Inr f" "f \<noteq> k" for k ns sqn f
  proof -
    have "no_change_tests fs sqn None (Some k) = Raise TypeError"
      using h(5,6) by (simp add: no_change_tests_def py_and_def int_eq_def int_arg_def)
    then show ?thesis using reach[OF h(1-4)] ch h(1,2) by simp
  qed
  have plain_start: "c = Raise AttributeError"
    if h: "seq_class sq = AbstractSequence" "p = None" "s = Some k"
          "numbers fs sq = Inr (ns, sqn)" "ns \<noteq> []" for k ns sqn
  proof -
    have "seq_class sqn = AbstractSequence" using numbers_class[OF h(4)] h(1) by simp
    then have "first_number_int fs sqn = Inl AttributeError"
      by (simp add: first_number_int_def firstNumber_def firstPath_def)
    then have "no_change_tests fs sqn None (Some k) = Raise AttributeError"
      by (simp add: no_change_tests_def py_and_def int_eq_def int_arg_def)
    then show ?thesis using reach[OF h(2-5)] ch h(2,3) by simp
  qed
  show ?thesis
  proof (cases c)
    case Return
    have e: "r = None" "sq' = sq1" "fs' = fs" using R unfolding rename_def ch Return by simp_all
    have a: "\<not> (\<exists>k ns sqn f. p = None \<and> s = Some k \<and> numbers fs sq = Inr (ns, sqn) \<and> ns \<noteq> []
              \<and> first_number_int fs sqn = Inr f \<and> f \<noteq> k)"
      using start_only Return by fastforce
    have b: "\<not> (\<exists>k ns sqn. seq_class sq = AbstractSequence \<and> p = None \<and> s = Some k
              \<and> numbers fs sq = Inr (ns, sqn) \<and> ns \<noteq> [])"
      using plain_start Return by fastforce
    have c: "fst (rename_checks fs sq p s) = Return" using ch Return by simp
    show ?thesis unfolding e c using str1 a b by simp blast
  next
    case (Raise e)
    have "(r, sq', fs') = (Some e, sq1, fs)" using R unfolding rename_def ch Raise by simp
    then show ?thesis using str1 ch Raise start_only plain_start by auto
  next
    case Proceed
    obtain ns P where n: "numbers fs sq = Inr (ns, sq1)" "ns \<noteq> []" "p = Some P"
      using rename_checks_proceed[OF ch[unfolded Proceed]] by auto
    have st: "settled sq1" "numbers fs sq1 = Inr (ns, sq1)"
      using numbers_settled[OF n(1)] by auto
    obtain first rest where ns: "ns = first # rest" using n(2) by (cases ns) auto
    define gate where "gate = (if ig then Inr (False, sq1)
                 else case seq_range fs sq1 of
                        Inl e \<Rightarrow> Inl e
                      | Inr (r, sq2) \<Rightarrow> Inr (length r > 1, sq2))"
    define contiguous where
      "contiguous = (ig \<or> (\<exists>rg sqr. seq_range fs sq1 = Inr (rg, sqr) \<and> length rg \<le> 1))"
    have unf: "rename vo fs sq p s ig rep dry cb =
       (case gate of
             Inl e \<Rightarrow> (Some e, sq1, fs)
           | Inr (gaps, sq2) \<Rightarrow>
               if gaps then (Some ValueError, sq2, fs)
               else plan_and_run vo fs sq2 p s rep dry cb)"
      unfolding rename_def ch Proceed gate_def by simp
    have main: "fs' = fs \<and> seq_string sq' = seq_string sq \<and> r \<noteq> None
        \<and> ((\<exists>k. first = Some k) \<and> contiguous \<longrightarrow> r = Some AttributeError)
        \<and> (first = None \<and> contiguous \<longrightarrow> r = Some TypeError)"
    proof (cases gate)
      case (Inl e)
      then have "\<not> contiguous"
        unfolding gate_def contiguous_def by (auto split: if_splits sum.splits)
      then show ?thesis using R str1 unfolding unf Inl by auto
    next
      case (Inr x)
      obtain gaps sq2 where x: "x = (gaps, sq2)" by (cases x)
      have sq2: "sq2 = sq1 \<or> (\<exists>rg. sq2 = sq1\<lparr>range_cache := Some rg\<rparr>)"
        using Inr x seq_range_state[OF st] unfolding gate_def
        by (auto split: if_splits sum.splits)
      then have st2: "settled sq2" "numbers fs sq2 = Inr (first # rest, sq2)"
        "seq_string sq2 = seq_string sq"
        using st numbers_range_cache[OF st] str1 ns by auto
      show ?thesis
      proof (cases gaps)
        case True
        then have "\<not> contiguous"
          using Inr x unfolding gate_def contiguous_def by (auto split: if_splits sum.splits)
        then show ?thesis using R st2 True unfolding unf Inr x by auto
      next
        case False
        then have "plan_and_run vo fs sq2 p s rep dry cb = (r, sq', fs')"
          using R unfolding unf Inr x by simp
        from plan_and_run_raises[OF st2(1,2) this] show ?thesis
          using st2(3) by auto
      qed
    qed
    have so: "p \<noteq> None" using n(3) by simp
    have plan: "r = Some AttributeError"
      if h: "numbers fs sq = Inr (Some k # ns', sqn)"
            "ig \<or> (\<exists>rg sqr. seq_range fs sqn = Inr (rg, sqr) \<and> length rg \<le> 1)"
      for k ns' sqn
    proof -
      have "sqn = sq1" "first = Some k" using h(1) n ns by auto
      then show ?thesis using main h(2) unfolding contiguous_def by auto
    qed
    have plan_none: "r = Some TypeError"
      if h: "numbers fs sq = Inr (None # ns', sqn)"
            "ig \<or> (\<exists>rg sqr. seq_range fs sqn = Inr (rg, sqr) \<and> length rg \<le> 1)"
      for ns' sqn
    proof -
      have "sqn = sq1" "first = None" using h(1) n ns by auto
      then show ?thesis using main h(2) unfolding contiguous_def by auto
    qed
    have "fs' = fs" "seq_string sq' = seq_string sq" "r \<noteq> None" using main by auto
    then show ?thesis using ch Proceed so plan plan_none by auto
  qed
qed

text \<open>
  Claim C9.  No call of \<open>rename\<close> moves a file: whatever the arguments, the file system
  and the source string are afterwards what they were, and the call returns normally
  exactly when the tests at its head say that there is nothing to do; every call that
  passes them raises.  With a start number only, different from the first number of a
  non-empty index, a \<open>FileSequence\<close> raises \<open>TypeError\<close> (\<open>int(None)\<close> on the padding), and
  a plain sequence, which has no \<open>firstNumber\<close>, raises \<open>AttributeError\<close> in the test
  before.  A call that passes the tests and the contiguity test raises \<open>AttributeError\<close> at
  \<open>item.path\<close> when the first item of the index has a number, and \<open>TypeError\<close> at
  \<open>num + frameOffset\<close> when it has none.
\<close>

theorem rename_raises_before_any_move:
  assumes "rename vo fs sq p s ig rep dry cb = (r, sq', fs')"
  shows "fs' = fs
       \<and> seq_string sq' = seq_string sq
       \<and> (r = None \<longleftrightarrow> fst (rename_checks fs sq p s) = Return)
       \<and> (\<forall>k ns sqn f. p = None \<and> s = Some k \<and> numbers fs sq = Inr (ns, sqn) \<and> ns \<noteq> []
              \<and> first_number_int fs sqn = Inr f \<and> f \<noteq> k \<longrightarrow> r = Some TypeError)
       \<and> (\<forall>k ns sqn. seq_class sq = AbstractSequence \<and> p = None \<and> s = Some k
              \<and> numbers fs sq = Inr (ns, sqn) \<and> ns \<noteq> [] \<longrightarrow> r = Some AttributeError)
       \<and> (\<forall>n ns sqn. fst (rename_checks fs sq p s) = Proceed
              \<and> numbers fs sq = Inr (Some n # ns, sqn)
              \<and> (ig \<or> (\<exists>rg sqr. seq_range fs sqn = Inr (rg, sqr) \<and> length rg \<le> 1))
              \<longrightarrow> r = Some AttributeError)
       \<and> (\<forall>ns sqn. fst (rename_checks fs sq p s) = Proceed
              \<and> numbers fs sq = Inr (None # ns, sqn)
              \<and> (ig \<or> (\<exists>rg sqr. seq_range fs sqn = Inr (rg, sqr) \<and> length rg \<le> 1))
              \<longrightarrow> r = Some TypeError)"
  by (rule rename_outcome[OF assms])

theorem rename_raises_before_any_move_witness:
  "fst (rename insertion_order folder_contiguous file_sequence_12
          (Some 5) None False False False None) = Some AttributeError
   \<and> fst (rename insertion_order folder_contiguous file_sequence_12
          None (Some 3) False False False None) = Some TypeError
   \<and> snd (snd (rename insertion_order folder_contiguous file_sequence_12
          (Some 5) None False False False None)) = folder_contiguous"
proof -
  let ?fs = folder_contiguous and ?sq = file_sequence_12
  let ?A = "rename insertion_order ?fs ?sq (Some 5) None False False False None"
  let ?B = "rename insertion_order ?fs ?sq None (Some 3) False False False None"
  have A: "?A = (fst ?A, fst (snd ?A), snd (snd ?A))" by simp
  have B: "?B = (fst ?B, fst (snd ?B), snd (snd ?B))" by simp
  have "map_sum id (\<lambda>(ns, sqn). (ns, first_number_int ?fs sqn,
                                   map_sum id (\<lambda>(rg, sqr). length rg) (seq_range ?fs sqn)))
          (numbers ?fs ?sq) = Inr ([Some 1, Some 2], Inr 1, Inr 1)"
    by code_simp
  then obtain sqn where n: "numbers ?fs ?sq = Inr ([Some 1, Some 2], sqn)"
    and f: "first_number_int ?fs sqn = Inr 1"
    and rg: "map_sum id (\<lambda>(rg, sqr). length rg) (seq_range ?fs sqn) = Inr 1"
    by (cases "numbers ?fs ?sq") auto
  obtain rg' sqr where r: "seq_range ?fs sqn = Inr (rg', sqr)" "length rg' \<le> 1"
    using rg by (cases "seq_range ?fs sqn") auto
  have p: "fst (rename_checks ?fs ?sq (Some 5) None) = Proceed" by code_simp
  have 1: "fst ?A = Some AttributeError"
  proof -
    have "\<forall>n ns sqn. fst (rename_checks ?fs ?sq (Some 5) None) = Proceed
              \<and> numbers ?fs ?sq = Inr (Some n # ns, sqn)
              \<and> (False \<or> (\<exists>rg sqr. seq_range ?fs sqn = Inr (rg, sqr) \<and> length rg \<le> 1))
              \<longrightarrow> fst ?A = Some AttributeError"
      using rename_raises_before_any_move[OF A] by blast
    from this[rule_format, of 1 "[Some 2]" sqn] show ?thesis using p n r by auto
  qed
  have 2: "fst ?B = Some TypeError"
  proof -
    have "\<forall>k ns sqn f. None = (None :: int option) \<and> Some (3::int) = Some k
              \<and> numbers ?fs ?sq = Inr (ns, sqn) \<and> ns \<noteq> []
              \<and> first_number_int ?fs sqn = Inr f \<and> f \<noteq> k \<longrightarrow> fst ?B = Some TypeError"
      using rename_raises_before_any_move[OF B] by blast
    from this[rule_format, of 3 "[Some 1, Some 2]" sqn 1] show ?thesis using n f by auto
  qed
  have 3: "snd (snd ?A) = ?fs"
    using rename_raises_before_any_move[OF A] by blast
  show ?thesis using 1 2 3 by simp
qed

text \<open>
  A start number only, on a plain sequence with the items 1, 2 and 3: the call raises
  \<open>AttributeError\<close>, because the test before the one that converts the padding reads
  \<open>self.firstNumber\<close>, which only a \<open>FileSequence\<close> has.
\<close>

theorem start_only_rename_of_plain_sequence_raises_attribute_error:
  "fst (rename insertion_order [] plain_sequence_123 None (Some 5) False False False None)
     = Some AttributeError"
  by code_simp


end
